theory Spec2Isabelle
  imports Complex_Main "HOL-Library.Signed_Division"
begin

section \<open>Articulate: engagement pipeline (reactions, view tracking, blog cache)\<close>

text \<open>
  A shallow embedding of the reaction toggle (\<^verbatim>\<open>internal/usecase/like_usecase.go\<close>,
  \<^verbatim>\<open>internal/infrastructure/repository/mongodb/like_repo.go\<close>), of the view tracker and the
  cache-aside reads (\<^verbatim>\<open>internal/usecase/blog_usecase.go\<close>,
  \<^verbatim>\<open>internal/infrastructure/repository/mongodb/blog_repo.go\<close>) and of the Redis-backed
  \<^verbatim>\<open>BlogCacheStore\<close> (package \<^verbatim>\<open>store\<close>).

  Conventions. A Go \<^verbatim>\<open>error\<close> is a value of the datatype \<open>error\<close>; a function that
  returns \<^verbatim>\<open>error\<close> returns \<open>error option\<close> (\<open>None\<close> is \<^verbatim>\<open>nil\<close>). A MongoDB
  collection is the list of its documents in natural order; the database and the Redis
  server are explicit states, passed in and returned. Every driver command consumes one
  entry of a fault schedule (\<open>nat \<Rightarrow> bool\<close>, indexed by the number of commands issued so
  far): where the schedule says \<open>True\<close> the command returns a driver error and has no
  effect. Wall-clock time is a parameter \<open>now\<close>, in seconds.
\<close>

subsection \<open>Errors\<close>

datatype error =
    ErrNew string          \<comment> \<open>\<^verbatim>\<open>errors.New(msg)\<close>, and \<^verbatim>\<open>fmt.Errorf(msg)\<close> without \<^verbatim>\<open>%w\<close>\<close>
  | ErrWrap string error   \<comment> \<open>\<^verbatim>\<open>fmt.Errorf("msg: %w", err)\<close>\<close>
  | ErrMongo               \<comment> \<open>an error returned by the MongoDB driver\<close>
  | ErrRedis               \<comment> \<open>an error returned by the Redis client\<close>

text \<open>\<^verbatim>\<open>err.Error()\<close>: the message of an error; a wrapped error prints as \<^verbatim>\<open>msg: inner\<close>.\<close>

fun Error :: "error \<Rightarrow> string" where
  "Error (ErrNew m) = m"
| "Error (ErrWrap m e) = m @ '': '' @ Error e"
| "Error ErrMongo = ''mongo: driver error''"
| "Error ErrRedis = ''redis: client error''"

text \<open>Whether the chain of an error (what \<^verbatim>\<open>errors.Is\<close> walks) reaches the Redis client.\<close>

fun is_cache_error :: "error \<Rightarrow> bool" where
  "is_cache_error ErrRedis = True"
| "is_cache_error (ErrWrap m e) = is_cache_error e"
| "is_cache_error (ErrNew m) = False"
| "is_cache_error ErrMongo = False"

subsection \<open>Entities\<close>

text \<open>
  Modelled from the spec: package \<^verbatim>\<open>entity\<close> holds the declarations of \<^verbatim>\<open>Blog\<close>,
  \<^verbatim>\<open>BlogView\<close>, \<^verbatim>\<open>Like\<close>, \<^verbatim>\<open>BlogStatus\<close>, \<^verbatim>\<open>TargetType\<close> and \<^verbatim>\<open>LikeType\<close>,
  and only \<^verbatim>\<open>entity/user.go\<close> is among the sources. The fields are the ones the
  use cases and repositories read and write, named after their BSON keys; the value sets
  are the spec's: status in draft, published, archived; target type in blog, comment;
  reaction type in like, dislike.
\<close>

datatype BlogStatus = BlogStatusDraft | BlogStatusPublished | BlogStatusArchived

datatype TargetType = TargetTypeBlog | TargetTypeComment

datatype LikeType = LIKE_TYPE_LIKE | LIKE_TYPE_DISLIKE

record Like =
  like_id :: string
  like_user_id :: string
  like_target_id :: string
  like_target_type :: TargetType
  like_type :: LikeType
  like_is_deleted :: bool

record Blog =
  blog_id :: string
  blog_title :: string
  blog_content :: string
  blog_author_id :: string
  blog_slug :: string
  blog_status :: BlogStatus
  blog_view_count :: int
  blog_like_count :: int
  blog_dislike_count :: int
  blog_comment_count :: int
  blog_popularity :: real
  blog_featured_image_id :: "string option"
  blog_published_at :: "int option"
  blog_updated_at :: int
  blog_is_deleted :: bool

record BlogView =
  view_blog_id :: string
  view_user_id :: string
  view_ip_address :: string
  view_user_agent :: string
  view_viewed_at :: int

subsection \<open>The MongoDB database\<close>

record mongo =
  blogs :: "Blog list"
  blog_views :: "BlogView list"
  blog_likes :: "Like list"
  mfaults :: "nat \<Rightarrow> bool"
  mops :: nat

text \<open>One driver command: whether it fails, and the database with the command counted.\<close>

definition mongo_cmd :: "mongo \<Rightarrow> bool \<times> mongo" where
  "mongo_cmd db = (mfaults db (mops db), db\<lparr>mops := Suc (mops db)\<rparr>)"

text \<open>\<^verbatim>\<open>UpdateOne\<close> changes the first document that matches the filter.\<close>

fun update_first :: "('a \<Rightarrow> bool) \<Rightarrow> ('a \<Rightarrow> 'a) \<Rightarrow> 'a list \<Rightarrow> 'a list" where
  "update_first P f [] = []"
| "update_first P f (x # xs) = (if P x then f x # xs else x # update_first P f xs)"

subsection \<open>The reaction repository (like\_repo.go)\<close>

definition ErrReactionNotFound :: error where
  "ErrReactionNotFound = ErrNew ''reaction not found''"

text \<open>The filter of \<^verbatim>\<open>CreateReaction\<close>: user, target and target type; not \<^verbatim>\<open>is_deleted\<close>.\<close>

definition reaction_filter :: "Like \<Rightarrow> Like \<Rightarrow> bool" where
  "reaction_filter like d \<longleftrightarrow>
     like_user_id d = like_user_id like \<and> like_target_id d = like_target_id like \<and>
     like_target_type d = like_target_type like"

text \<open>
  \<^verbatim>\<open>CreateReaction\<close>: an \<^verbatim>\<open>UpdateOne\<close> with \<^verbatim>\<open>upsert: true\<close>. \<open>uuid\<close> is what
  \<^verbatim>\<open>uuid.New().String()\<close> returns in this call. A matching document gets \<^verbatim>\<open>type\<close> and
  \<^verbatim>\<open>is_deleted: false\<close> set and the caller's struct is left as it is; with no match a
  document is inserted from the filter, the \<^verbatim>\<open>$set\<close> and the \<^verbatim>\<open>$setOnInsert\<close> fields
  and its id is written to the caller's struct. MongoDB refuses an insert whose
  \<^verbatim>\<open>_id\<close> is taken. Returns the error and the caller's struct.
\<close>

definition CreateReaction :: "string \<Rightarrow> mongo \<Rightarrow> Like \<Rightarrow> (error option \<times> Like) \<times> mongo" where
  "CreateReaction uuid db like =
     (case mongo_cmd db of (fault, db1) \<Rightarrow>
        if fault then
          ((Some (ErrWrap ''failed to create or update reaction record'' ErrMongo), like), db1)
        else if list_ex (reaction_filter like) (blog_likes db1) then
          ((None, like),
           db1\<lparr>blog_likes := update_first (reaction_filter like)
                  (\<lambda>d. d\<lparr>like_type := like_type like, like_is_deleted := False\<rparr>)
                  (blog_likes db1)\<rparr>)
        else if list_ex (\<lambda>d. like_id d = uuid) (blog_likes db1) then
          ((Some (ErrWrap ''failed to create or update reaction record'' ErrMongo), like), db1)
        else
          ((None, like\<lparr>like_id := uuid\<rparr>),
           db1\<lparr>blog_likes := blog_likes db1 @
                  [\<lparr>like_id = uuid, like_user_id = like_user_id like,
                    like_target_id = like_target_id like,
                    like_target_type = like_target_type like,
                    like_type = like_type like, like_is_deleted = False\<rparr>]\<rparr>))"

text \<open>\<^verbatim>\<open>DeleteReaction\<close>: soft delete of the active document with this id.\<close>

definition DeleteReaction :: "mongo \<Rightarrow> string \<Rightarrow> error option \<times> mongo" where
  "DeleteReaction db reactionID =
     (case mongo_cmd db of (fault, db1) \<Rightarrow>
        if fault then (Some (ErrWrap ''failed to delete reaction'' ErrMongo), db1)
        else if list_ex (\<lambda>d. like_id d = reactionID \<and> \<not> like_is_deleted d) (blog_likes db1) then
          (None,
           db1\<lparr>blog_likes := update_first (\<lambda>d. like_id d = reactionID \<and> \<not> like_is_deleted d)
                  (\<lambda>d. d\<lparr>like_is_deleted := True\<rparr>) (blog_likes db1)\<rparr>)
        else (Some ErrReactionNotFound, db1))"

text \<open>\<^verbatim>\<open>GetReactionByUserIDAndTargetID\<close>: the first active reaction of the user on the target.\<close>

definition GetReactionByUserIDAndTargetID ::
    "mongo \<Rightarrow> string \<Rightarrow> string \<Rightarrow> (error + Like) \<times> mongo" where
  "GetReactionByUserIDAndTargetID db userID targetID =
     (case mongo_cmd db of (fault, db1) \<Rightarrow>
        if fault then (Inl (ErrWrap ''failed to retrieve reaction'' ErrMongo), db1)
        else (case find (\<lambda>d. like_user_id d = userID \<and> like_target_id d = targetID \<and>
                               \<not> like_is_deleted d) (blog_likes db1) of
                None \<Rightarrow> (Inl ErrReactionNotFound, db1)
              | Some d \<Rightarrow> (Inr d, db1)))"

definition CountLikesByTargetID :: "mongo \<Rightarrow> string \<Rightarrow> (error + int) \<times> mongo" where
  "CountLikesByTargetID db targetID =
     (case mongo_cmd db of (fault, db1) \<Rightarrow>
        if fault then (Inl (ErrWrap ''failed to count active likes'' ErrMongo), db1)
        else (Inr (int (length (filter (\<lambda>d. like_target_id d = targetID \<and>
                 like_type d = LIKE_TYPE_LIKE \<and> \<not> like_is_deleted d) (blog_likes db1)))), db1))"

definition CountDislikesByTargetID :: "mongo \<Rightarrow> string \<Rightarrow> (error + int) \<times> mongo" where
  "CountDislikesByTargetID db targetID =
     (case mongo_cmd db of (fault, db1) \<Rightarrow>
        if fault then (Inl (ErrWrap ''failed to count active dislikes'' ErrMongo), db1)
        else (Inr (int (length (filter (\<lambda>d. like_target_id d = targetID \<and>
                 like_type d = LIKE_TYPE_DISLIKE \<and> \<not> like_is_deleted d) (blog_likes db1)))), db1))"

subsection \<open>The blog repository (blog\_repo.go): documents\<close>

text \<open>\<^verbatim>\<open>GetBlogByID\<close>: the blog with this id that is not deleted.\<close>

definition GetBlogByID :: "mongo \<Rightarrow> string \<Rightarrow> (error + Blog) \<times> mongo" where
  "GetBlogByID db blogID =
     (case mongo_cmd db of (fault, db1) \<Rightarrow>
        if fault then (Inl (ErrWrap ''failed to retrieve blog post'' ErrMongo), db1)
        else (case find (\<lambda>b. blog_id b = blogID \<and> \<not> blog_is_deleted b) (blogs db1) of
                None \<Rightarrow> (Inl (ErrWrap ''blog not found or has been deleted''
                                (ErrNew ''mongo: no documents in result'')), db1)
              | Some b \<Rightarrow> (Inr b, db1)))"

definition GetBlogBySlug :: "mongo \<Rightarrow> string \<Rightarrow> (error + Blog) \<times> mongo" where
  "GetBlogBySlug db slug =
     (case mongo_cmd db of (fault, db1) \<Rightarrow>
        if fault then (Inl (ErrWrap ''failed to retrieve blog post'' ErrMongo), db1)
        else (case find (\<lambda>b. blog_slug b = slug \<and> \<not> blog_is_deleted b) (blogs db1) of
                None \<Rightarrow> (Inl (ErrWrap ''blog not found or has been deleted''
                                (ErrNew ''mongo: no documents in result'')), db1)
              | Some b \<Rightarrow> (Inr b, db1)))"

text \<open>
  \<^verbatim>\<open>UpdateBlog\<close>: \<^verbatim>\<open>$set\<close> of the given fields (the map of updates is the function
  \<open>upd\<close> on the document) and of \<^verbatim>\<open>updated_at\<close>, on the blog with this id that is not
  deleted. \<^verbatim>\<open>MatchedCount\<close> is 0 when there is no such blog; \<^verbatim>\<open>ModifiedCount\<close> is 0
  when the update leaves the matched document as it was.
\<close>

definition UpdateBlog_repo ::
    "int \<Rightarrow> mongo \<Rightarrow> string \<Rightarrow> (Blog \<Rightarrow> Blog) \<Rightarrow> error option \<times> mongo" where
  "UpdateBlog_repo now db blogID upd =
     (case mongo_cmd db of (fault, db1) \<Rightarrow>
        if fault then (Some (ErrWrap ''failed to update blog'' ErrMongo), db1)
        else (case find (\<lambda>b. blog_id b = blogID \<and> \<not> blog_is_deleted b) (blogs db1) of
                None \<Rightarrow> (Some (ErrNew ''blog post not found''), db1)
              | Some b \<Rightarrow>
                  if (upd b)\<lparr>blog_updated_at := now\<rparr> = b then
                    (Some (ErrNew ''blog post was not modified''), db1)
                  else
                    (None, db1\<lparr>blogs := update_first (\<lambda>b. blog_id b = blogID \<and> \<not> blog_is_deleted b)
                       (\<lambda>b. (upd b)\<lparr>blog_updated_at := now\<rparr>) (blogs db1)\<rparr>)))"

subsection \<open>The reaction use case (like\_usecase.go)\<close>

text \<open>
  The block both toggles end with: for a blog target, recount the active likes and
  dislikes, recompute the popularity and write the three fields to the blog. \<open>score\<close>
  is \<^verbatim>\<open>utils.CalculatePopularity\<close>, which is not among the sources, and \<open>now\<close>
  what \<^verbatim>\<open>time.Now()\<close> returns in the repository. The use case is
  built with a blog repository (\<^verbatim>\<open>NewLikeUsecase(likeRepo, blogRepo)\<close> in \<^verbatim>\<open>main\<close>), so
  \<^verbatim>\<open>u.blogRepo != nil\<close> holds. The result of the final update is discarded.
\<close>

definition refresh_counts ::
    "(int \<Rightarrow> int \<Rightarrow> int \<Rightarrow> int \<Rightarrow> real) \<Rightarrow> int \<Rightarrow> mongo \<Rightarrow> string \<Rightarrow> TargetType \<Rightarrow> mongo" where
  "refresh_counts score now db targetID targetType =
     (if targetType = TargetTypeBlog then
        (case CountLikesByTargetID db targetID of (r1, db1) \<Rightarrow>
         (case CountDislikesByTargetID db1 targetID of (r2, db2) \<Rightarrow>
           (case (r1, r2) of
              (Inr likes, Inr dislikes) \<Rightarrow>
                (case GetBlogByID db2 targetID of (rb, db3) \<Rightarrow>
                   let views = (case rb of Inr blog \<Rightarrow> blog_view_count blog | Inl e \<Rightarrow> 0);
                       comments = (case rb of Inr blog \<Rightarrow> blog_comment_count blog | Inl e \<Rightarrow> 0);
                       popularity = score views likes dislikes comments
                   in snd (UpdateBlog_repo now db3 targetID
                        (\<lambda>b. b\<lparr>blog_like_count := likes, blog_dislike_count := dislikes,
                               blog_popularity := popularity\<rparr>)))
            | _ \<Rightarrow> db2)))
      else db)"

text \<open>
  The test on the lookup error: \<^verbatim>\<open>errors.Is(err, ErrReactionNotFound)\<close> or
  \<^verbatim>\<open>err.Error() == "reaction not found"\<close>. The sentinel of package \<^verbatim>\<open>usecase\<close> carries
  the same message, so the test is the comparison of the message.
\<close>

definition is_reaction_not_found :: "error \<Rightarrow> bool" where
  "is_reaction_not_found err \<longleftrightarrow> Error err = ''reaction not found''"

definition ToggleLike ::
    "(int \<Rightarrow> int \<Rightarrow> int \<Rightarrow> int \<Rightarrow> real) \<Rightarrow> int \<Rightarrow> string \<Rightarrow> mongo \<Rightarrow> string \<Rightarrow> string
       \<Rightarrow> TargetType \<Rightarrow> error option \<times> mongo" where
  "ToggleLike score now uuid db userID targetID targetType =
     (case GetReactionByUserIDAndTargetID db userID targetID of
        (Inl err, db1) \<Rightarrow>
          if is_reaction_not_found err then
            (case CreateReaction uuid db1
                    \<lparr>like_id = '''', like_user_id = userID, like_target_id = targetID,
                     like_target_type = targetType, like_type = LIKE_TYPE_LIKE,
                     like_is_deleted = False\<rparr> of
               ((resultErr, newLike), db2) \<Rightarrow>
                 (resultErr, refresh_counts score now db2 targetID targetType))
          else (Some (ErrWrap ''failed to retrieve existing reaction'' err), db1)
      | (Inr existingReaction, db1) \<Rightarrow>
          if like_type existingReaction = LIKE_TYPE_LIKE then
            (case DeleteReaction db1 (like_id existingReaction) of
               (resultErr, db2) \<Rightarrow> (resultErr, refresh_counts score now db2 targetID targetType))
          else
            (case CreateReaction uuid db1 (existingReaction\<lparr>like_type := LIKE_TYPE_LIKE\<rparr>) of
               ((resultErr, l), db2) \<Rightarrow>
                 (resultErr, refresh_counts score now db2 targetID targetType)))"

definition ToggleDislike ::
    "(int \<Rightarrow> int \<Rightarrow> int \<Rightarrow> int \<Rightarrow> real) \<Rightarrow> int \<Rightarrow> string \<Rightarrow> mongo \<Rightarrow> string \<Rightarrow> string
       \<Rightarrow> TargetType \<Rightarrow> error option \<times> mongo" where
  "ToggleDislike score now uuid db userID targetID targetType =
     (case GetReactionByUserIDAndTargetID db userID targetID of
        (Inl err, db1) \<Rightarrow>
          if is_reaction_not_found err then
            (case CreateReaction uuid db1
                    \<lparr>like_id = '''', like_user_id = userID, like_target_id = targetID,
                     like_target_type = targetType, like_type = LIKE_TYPE_DISLIKE,
                     like_is_deleted = False\<rparr> of
               ((Some resultErr, newDislike), db2) \<Rightarrow>
                 (Some (ErrWrap ''failed to create dislike reaction'' resultErr), db2)
             | ((None, newDislike), db2) \<Rightarrow>
                 (None, refresh_counts score now db2 targetID targetType))
          else (Some (ErrWrap ''failed to retrieve existing reaction'' err), db1)
      | (Inr existingReaction, db1) \<Rightarrow>
          if like_type existingReaction = LIKE_TYPE_DISLIKE then
            (case DeleteReaction db1 (like_id existingReaction) of
               (Some resultErr, db2) \<Rightarrow>
                 (Some (ErrWrap ''failed to delete dislike reaction'' resultErr), db2)
             | (None, db2) \<Rightarrow> (None, refresh_counts score now db2 targetID targetType))
          else
            (case CreateReaction uuid db1 (existingReaction\<lparr>like_type := LIKE_TYPE_DISLIKE\<rparr>) of
               ((Some resultErr, l), db2) \<Rightarrow>
                 (Some (ErrWrap ''failed to change like to dislike'' resultErr), db2)
             | ((None, l), db2) \<Rightarrow> (None, refresh_counts score now db2 targetID targetType)))"

subsection \<open>The blog repository (blog\_repo.go): counters and view records\<close>

text \<open>\<^verbatim>\<open>IncrementViewCount\<close>: \<^verbatim>\<open>$inc\<close> of \<^verbatim>\<open>view_count\<close> on the blog that is not deleted.\<close>

definition IncrementViewCount :: "mongo \<Rightarrow> string \<Rightarrow> error option \<times> mongo" where
  "IncrementViewCount db blogID =
     (case mongo_cmd db of (fault, db1) \<Rightarrow>
        if fault then (Some (ErrWrap ''failed to increment view count'' ErrMongo), db1)
        else if list_ex (\<lambda>b. blog_id b = blogID \<and> \<not> blog_is_deleted b) (blogs db1) then
          (None, db1\<lparr>blogs := update_first (\<lambda>b. blog_id b = blogID \<and> \<not> blog_is_deleted b)
                     (\<lambda>b. b\<lparr>blog_view_count := blog_view_count b + 1\<rparr>) (blogs db1)\<rparr>)
        else (Some (ErrNew ''blog post not found''), db1))"

text \<open>
  \<^verbatim>\<open>HasViewedRecently\<close>: counts the view records of the blog whose IP address is the
  given one or, when a user id is given, whose user id is the given one. The filter
  has no condition on \<^verbatim>\<open>viewed_at\<close>, and the function takes no time.
\<close>

definition HasViewedRecently ::
    "mongo \<Rightarrow> string \<Rightarrow> string \<Rightarrow> string \<Rightarrow> (error + bool) \<times> mongo" where
  "HasViewedRecently db blogID userID ipAddress =
     (case mongo_cmd db of (fault, db1) \<Rightarrow>
        if fault then (Inl (ErrWrap ''failed to check for recent blog view'' ErrMongo), db1)
        else (Inr (0 < length (filter (\<lambda>v. view_blog_id v = blogID \<and>
                 (view_ip_address v = ipAddress \<or> (userID \<noteq> '''' \<and> view_user_id v = userID)))
               (blog_views db1))), db1))"

definition RecordView ::
    "int \<Rightarrow> mongo \<Rightarrow> string \<Rightarrow> string \<Rightarrow> string \<Rightarrow> string \<Rightarrow> error option \<times> mongo" where
  "RecordView now db blogID userID ipAddress userAgent =
     (case mongo_cmd db of (fault, db1) \<Rightarrow>
        if fault then (Some (ErrWrap ''failed to record blog view'' ErrMongo), db1)
        else (None, db1\<lparr>blog_views := blog_views db1 @
                [\<lparr>view_blog_id = blogID, view_user_id = userID, view_ip_address = ipAddress,
                  view_user_agent = userAgent, view_viewed_at = now\<rparr>]\<rparr>))"

definition GetRecentViewsByIP :: "mongo \<Rightarrow> string \<Rightarrow> int \<Rightarrow> (error + BlogView list) \<times> mongo" where
  "GetRecentViewsByIP db ipAddress since =
     (case mongo_cmd db of (fault, db1) \<Rightarrow>
        if fault then (Inl (ErrWrap ''failed to retrieve recent views by IP'' ErrMongo), db1)
        else (Inr (filter (\<lambda>v. view_ip_address v = ipAddress \<and> since \<le> view_viewed_at v)
                (blog_views db1)), db1))"

definition GetRecentViewsByUser :: "mongo \<Rightarrow> string \<Rightarrow> int \<Rightarrow> (error + BlogView list) \<times> mongo" where
  "GetRecentViewsByUser db userID since =
     (if userID = '''' then (Inr [], db)
      else (case mongo_cmd db of (fault, db1) \<Rightarrow>
        if fault then (Inl (ErrWrap ''failed to retrieve recent views by user'' ErrMongo), db1)
        else (Inr (filter (\<lambda>v. view_user_id v = userID \<and> since \<le> view_viewed_at v)
                (blog_views db1)), db1)))"

definition GetBlogCounts :: "mongo \<Rightarrow> string \<Rightarrow> (error + int \<times> int \<times> int \<times> int) \<times> mongo" where
  "GetBlogCounts db blogID =
     (case mongo_cmd db of (fault, db1) \<Rightarrow>
        if fault then (Inl (ErrWrap ''failed to get blog counts'' ErrMongo), db1)
        else (case find (\<lambda>b. blog_id b = blogID \<and> \<not> blog_is_deleted b) (blogs db1) of
                None \<Rightarrow> (Inl (ErrNew ''blog not found''), db1)
              | Some b \<Rightarrow> (Inr (blog_view_count b, blog_like_count b, blog_dislike_count b,
                                 blog_comment_count b), db1)))"

subsection \<open>The Redis server\<close>

text \<open>
  What the cache store needs of Redis: string values with a time to live, sets with a
  time to live, \<^verbatim>\<open>GET\<close>, \<^verbatim>\<open>SET\<close>, \<^verbatim>\<open>DEL\<close>, \<^verbatim>\<open>SCAN\<close>, \<^verbatim>\<open>SADD\<close>, \<^verbatim>\<open>EXPIRE\<close>
  and \<^verbatim>\<open>SCARD\<close>. A string value is the JSON text of a blog or of a list page (decoding
  what was encoded gives the value back) or some other text (\<open>RJunk\<close>). An entry whose
  expiry time has come is not there for any command.
\<close>

record CachedBlogsPage =
  page_blogs :: "Blog list"
  page_total :: int

datatype rvalue = RBlog Blog | RPage CachedBlogsPage | RSet "string list" | RJunk

record rentry =
  rval :: rvalue
  rexpiry :: "int option"

record redis =
  rkv :: "(string \<times> rentry) list"
  rfaults :: "nat \<Rightarrow> bool"
  rops :: nat

definition redis_cmd :: "redis \<Rightarrow> bool \<times> redis" where
  "redis_cmd r = (rfaults r (rops r), r\<lparr>rops := Suc (rops r)\<rparr>)"

definition expired :: "int \<Rightarrow> rentry \<Rightarrow> bool" where
  "expired now e = (case rexpiry e of None \<Rightarrow> False | Some x \<Rightarrow> x \<le> now)"

definition rlookup :: "int \<Rightarrow> redis \<Rightarrow> string \<Rightarrow> rentry option" where
  "rlookup now r k =
     (case map_of (rkv r) k of
        None \<Rightarrow> None
      | Some e \<Rightarrow> if expired now e then None else Some e)"

definition rstore :: "string \<Rightarrow> rentry \<Rightarrow> redis \<Rightarrow> redis" where
  "rstore k e r = r\<lparr>rkv := (k, e) # filter (\<lambda>p. fst p \<noteq> k) (rkv r)\<rparr>"

definition rdelete :: "string list \<Rightarrow> redis \<Rightarrow> redis" where
  "rdelete ks r = r\<lparr>rkv := filter (\<lambda>p. fst p \<notin> set ks) (rkv r)\<rparr>"

definition is_prefix :: "string \<Rightarrow> string \<Rightarrow> bool" where
  "is_prefix p s \<longleftrightarrow> take (length p) s = p"

text \<open>\<^verbatim>\<open>GET\<close>: \<open>Inr None\<close> is the reply \<^verbatim>\<open>redis.Nil\<close>; a set under the key is a type error.\<close>

definition redis_GET :: "int \<Rightarrow> redis \<Rightarrow> string \<Rightarrow> (error + rvalue option) \<times> redis" where
  "redis_GET now r k =
     (case redis_cmd r of (fault, r1) \<Rightarrow>
        if fault then (Inl ErrRedis, r1)
        else (case rlookup now r1 k of
                None \<Rightarrow> (Inr None, r1)
              | Some e \<Rightarrow> (case rval e of
                             RSet ms \<Rightarrow> (Inl ErrRedis, r1)
                           | v \<Rightarrow> (Inr (Some v), r1))))"

definition redis_SET :: "int \<Rightarrow> redis \<Rightarrow> string \<Rightarrow> rvalue \<Rightarrow> int \<Rightarrow> error option \<times> redis" where
  "redis_SET now r k v ttl =
     (case redis_cmd r of (fault, r1) \<Rightarrow>
        if fault then (Some ErrRedis, r1)
        else (None, rstore k \<lparr>rval = v, rexpiry = Some (now + ttl)\<rparr> r1))"

text \<open>\<^verbatim>\<open>DEL\<close> of some keys, in one round trip (one command, or one pipeline of them).\<close>

definition redis_DEL :: "redis \<Rightarrow> string list \<Rightarrow> error option \<times> redis" where
  "redis_DEL r ks =
     (case redis_cmd r of (fault, r1) \<Rightarrow>
        if fault then (Some ErrRedis, r1) else (None, rdelete ks r1))"

text \<open>
  \<^verbatim>\<open>SCAN\<close> with a pattern \<^verbatim>\<open>prefix*\<close>, iterated to the end: the keys that are there and
  start with the prefix, in the order of the key space. The iteration is one command
  of the fault schedule.
\<close>

definition redis_SCAN :: "int \<Rightarrow> redis \<Rightarrow> string \<Rightarrow> (error + string list) \<times> redis" where
  "redis_SCAN now r p =
     (case redis_cmd r of (fault, r1) \<Rightarrow>
        if fault then (Inl ErrRedis, r1)
        else (Inr (filter (\<lambda>k. is_prefix p k \<and> rlookup now r1 k \<noteq> None)
                     (remdups (map fst (rkv r1)))), r1))"

definition redis_SADD :: "int \<Rightarrow> redis \<Rightarrow> string \<Rightarrow> string \<Rightarrow> error option \<times> redis" where
  "redis_SADD now r k m =
     (case redis_cmd r of (fault, r1) \<Rightarrow>
        if fault then (Some ErrRedis, r1)
        else (case rlookup now r1 k of
                None \<Rightarrow> (None, rstore k \<lparr>rval = RSet [m], rexpiry = None\<rparr> r1)
              | Some e \<Rightarrow> (case rval e of
                             RSet ms \<Rightarrow> (None, rstore k (e\<lparr>rval := RSet (List.insert m ms)\<rparr>) r1)
                           | v \<Rightarrow> (Some ErrRedis, r1))))"

definition redis_EXPIRE :: "int \<Rightarrow> redis \<Rightarrow> string \<Rightarrow> int \<Rightarrow> error option \<times> redis" where
  "redis_EXPIRE now r k ttl =
     (case redis_cmd r of (fault, r1) \<Rightarrow>
        if fault then (Some ErrRedis, r1)
        else (case rlookup now r1 k of
                None \<Rightarrow> (None, r1)
              | Some e \<Rightarrow> (None, rstore k (e\<lparr>rexpiry := Some (now + ttl)\<rparr>) r1)))"

definition redis_SCARD :: "int \<Rightarrow> redis \<Rightarrow> string \<Rightarrow> (error + int) \<times> redis" where
  "redis_SCARD now r k =
     (case redis_cmd r of (fault, r1) \<Rightarrow>
        if fault then (Inl ErrRedis, r1)
        else (case rlookup now r1 k of
                None \<Rightarrow> (Inr 0, r1)
              | Some e \<Rightarrow> (case rval e of
                             RSet ms \<Rightarrow> (Inr (int (length (remdups ms))), r1)
                           | v \<Rightarrow> (Inl ErrRedis, r1))))"

subsection \<open>The cache store (package store, BlogCacheStore)\<close>

definition detailTTL :: int where "detailTTL = 60 * 60"

definition listTTL :: int where "listTTL = 30 * 60"

definition blogDetailKey :: "string \<Rightarrow> string" where
  "blogDetailKey slug = ''blog:slug:'' @ slug"

text \<open>
  \<^verbatim>\<open>GetBlogBySlug\<close> of the store returns \<^verbatim>\<open>(*Blog, found, err)\<close>: a hit is
  \<open>Inr (Some blog)\<close>, a miss (\<^verbatim>\<open>redis.Nil\<close>, or text that does not decode) is \<open>Inr None\<close>.
\<close>

definition GetBlogBySlug_cache :: "int \<Rightarrow> redis \<Rightarrow> string \<Rightarrow> (error + Blog option) \<times> redis" where
  "GetBlogBySlug_cache now r slug =
     (case redis_GET now r (blogDetailKey slug) of
        (Inl err, r1) \<Rightarrow> (Inl err, r1)
      | (Inr None, r1) \<Rightarrow> (Inr None, r1)
      | (Inr (Some (RBlog blog)), r1) \<Rightarrow> (Inr (Some blog), r1)
      | (Inr (Some v), r1) \<Rightarrow> (Inr None, r1))"

definition SetBlogBySlug :: "int \<Rightarrow> redis \<Rightarrow> string \<Rightarrow> Blog \<Rightarrow> error option \<times> redis" where
  "SetBlogBySlug now r slug blog = redis_SET now r (blogDetailKey slug) (RBlog blog) detailTTL"

definition InvalidateBlogBySlug :: "redis \<Rightarrow> string \<Rightarrow> error option \<times> redis" where
  "InvalidateBlogBySlug r slug = redis_DEL r [blogDetailKey slug]"

definition GetBlogsPage ::
    "int \<Rightarrow> redis \<Rightarrow> string \<Rightarrow> (error + CachedBlogsPage option) \<times> redis" where
  "GetBlogsPage now r k =
     (case redis_GET now r k of
        (Inl err, r1) \<Rightarrow> (Inl err, r1)
      | (Inr None, r1) \<Rightarrow> (Inr None, r1)
      | (Inr (Some (RPage page)), r1) \<Rightarrow> (Inr (Some page), r1)
      | (Inr (Some v), r1) \<Rightarrow> (Inr None, r1))"

definition SetBlogsPage :: "int \<Rightarrow> redis \<Rightarrow> string \<Rightarrow> CachedBlogsPage \<Rightarrow> error option \<times> redis" where
  "SetBlogsPage now r k page = redis_SET now r k (RPage page) listTTL"

text \<open>
  The pipeline of \<^verbatim>\<open>InvalidateBlogLists\<close>: \<^verbatim>\<open>pipe.Exec\<close> sends the queued deletions
  in one round trip and empties the queue; with nothing queued it sends nothing.
\<close>

definition pipe_Exec :: "redis \<Rightarrow> string list \<Rightarrow> error option \<times> redis" where
  "pipe_Exec r queued = (if queued = [] then (None, r) else redis_DEL r queued)"

text \<open>
  The loop over the scanned keys: queue a deletion, count it, and after every 200th
  send the pipeline; an error of that \<^verbatim>\<open>Exec\<close> is returned. The result is the error,
  the deletions still queued and the server.
\<close>

fun invalidate_loop ::
    "string list \<Rightarrow> string list \<Rightarrow> nat \<Rightarrow> redis \<Rightarrow> error option \<times> string list \<times> redis" where
  "invalidate_loop [] queued n r = (None, queued, r)"
| "invalidate_loop (k # ks) queued n r =
     (if Suc n mod 200 = 0 then
        (case pipe_Exec r (queued @ [k]) of
           (Some err, r1) \<Rightarrow> (Some err, [], r1)
         | (None, r1) \<Rightarrow> invalidate_loop ks [] (Suc n) r1)
      else invalidate_loop ks (queued @ [k]) (Suc n) r)"

text \<open>
  \<^verbatim>\<open>InvalidateBlogLists\<close>: scan \<^verbatim>\<open>blogs:list:*\<close>, delete in batches of 200; the error
  of the scan is returned, the error of the last \<^verbatim>\<open>Exec\<close> is discarded.
\<close>

definition InvalidateBlogLists :: "int \<Rightarrow> redis \<Rightarrow> error option \<times> redis" where
  "InvalidateBlogLists now r =
     (case redis_SCAN now r ''blogs:list:'' of
        (Inl err, r1) \<Rightarrow> (Some err, r1)
      | (Inr ks, r1) \<Rightarrow>
          (case invalidate_loop ks [] 0 r1 of
             (Some err, queued, r2) \<Rightarrow> (Some err, r2)
           | (None, queued, r2) \<Rightarrow> (None, snd (pipe_Exec r2 queued))))"

definition recentViewsByIPKey :: "string \<Rightarrow> string" where
  "recentViewsByIPKey ip = ''blog:recentviews:ip:'' @ ip"

definition recentViewsByUserKey :: "string \<Rightarrow> string" where
  "recentViewsByUserKey userID = ''blog:recentviews:user:'' @ userID"

definition AddRecentViewByIP ::
    "int \<Rightarrow> redis \<Rightarrow> string \<Rightarrow> string \<Rightarrow> int \<Rightarrow> error option \<times> redis" where
  "AddRecentViewByIP now r ip blogID ttlSeconds =
     (case redis_SADD now r (recentViewsByIPKey ip) blogID of
        (Some err, r1) \<Rightarrow> (Some err, r1)
      | (None, r1) \<Rightarrow> redis_EXPIRE now r1 (recentViewsByIPKey ip) ttlSeconds)"

definition GetRecentViewCountByIP :: "int \<Rightarrow> redis \<Rightarrow> string \<Rightarrow> (error + int) \<times> redis" where
  "GetRecentViewCountByIP now r ip = redis_SCARD now r (recentViewsByIPKey ip)"

definition AddRecentViewByUser ::
    "int \<Rightarrow> redis \<Rightarrow> string \<Rightarrow> string \<Rightarrow> int \<Rightarrow> error option \<times> redis" where
  "AddRecentViewByUser now r userID ip ttlSeconds =
     (case redis_SADD now r (recentViewsByUserKey userID) ip of
        (Some err, r1) \<Rightarrow> (Some err, r1)
      | (None, r1) \<Rightarrow> redis_EXPIRE now r1 (recentViewsByUserKey userID) ttlSeconds)"

definition GetRecentIPCountByUser :: "int \<Rightarrow> redis \<Rightarrow> string \<Rightarrow> (error + int) \<times> redis" where
  "GetRecentIPCountByUser now r userID = redis_SCARD now r (recentViewsByUserKey userID)"

subsection \<open>The blog use case (blog\_usecase.go): view tracking\<close>

text \<open>
  \<^verbatim>\<open>strings.ToLower\<close> and \<^verbatim>\<open>strings.Contains\<close>, on ASCII text (a User-Agent header).
\<close>

definition to_lower_char :: "char \<Rightarrow> char" where
  "to_lower_char c =
     (let n = (of_char c :: nat) in if 65 \<le> n \<and> n \<le> 90 then char_of (n + 32) else c)"

definition ToLower :: "string \<Rightarrow> string" where
  "ToLower s = map to_lower_char s"

fun Contains :: "string \<Rightarrow> string \<Rightarrow> bool" where
  "Contains [] sub = (sub = [])"
| "Contains (c # s) sub = (is_prefix sub (c # s) \<or> Contains s sub)"

definition botSignatures :: "string list" where
  "botSignatures = [''bot'', ''spider'', ''crawl'', ''slurp'', ''curl'', ''wget'',
     ''python-requests'', ''httpclient'', ''feedfetcher'', ''mediapartners-google'']"

definition isBot :: "string \<Rightarrow> bool" where
  "isBot userAgent = list_ex (Contains (ToLower userAgent)) botSignatures"

definition maxIpVelocity :: int where "maxIpVelocity = 10"

definition ipVelocityTTL :: int where "ipVelocityTTL = 5 * 60"

definition maxUserIPs :: int where "maxUserIPs = 5"

definition userIPRotationTTL :: int where "userIPRotationTTL = 60 * 60"

definition ErrVelocity :: error where
  "ErrVelocity = ErrNew ''exceeded view velocity limit: too many views from this IP recently''"

definition ErrRotation :: error where
  "ErrRotation = ErrNew ''exceeded IP rotation limit: too many IPs used by this user recently''"

definition ErrAlreadyViewed :: error where
  "ErrAlreadyViewed = ErrNew ''already viewed recently''"

text \<open>
  The IP velocity check of \<^verbatim>\<open>TrackBlogView\<close> (with a cache): add the blog to the set
  of the IP, read the cardinality; when that read fails, count the view records of the
  IP of the last five minutes instead.
\<close>

definition velocity_check ::
    "int \<Rightarrow> mongo \<Rightarrow> redis \<Rightarrow> string \<Rightarrow> string \<Rightarrow> error option \<times> mongo \<times> redis" where
  "velocity_check now db c blogID ipAddress =
     (case AddRecentViewByIP now c ipAddress blogID ipVelocityTTL of (discarded, c1) \<Rightarrow>
        (case GetRecentViewCountByIP now c1 ipAddress of
           (Inr ipViewCount, c2) \<Rightarrow>
             if ipViewCount > maxIpVelocity then (Some ErrVelocity, db, c2) else (None, db, c2)
         | (Inl err, c2) \<Rightarrow>
             (case GetRecentViewsByIP db ipAddress (now - 5 * 60) of
                (Inr ipViews, db1) \<Rightarrow>
                  if int (length ipViews) > maxIpVelocity then (Some ErrVelocity, db1, c2)
                  else (None, db1, c2)
              | (Inl dbErr, db1) \<Rightarrow> (None, db1, c2))))"

text \<open>
  The IP rotation check (with a cache, for a logged-in user): add the IP to the set of
  the user, read the cardinality; when that read fails, count the distinct IPs of the
  user's view records of the last sixty minutes instead.
\<close>

definition rotation_check ::
    "int \<Rightarrow> mongo \<Rightarrow> redis \<Rightarrow> string \<Rightarrow> string \<Rightarrow> error option \<times> mongo \<times> redis" where
  "rotation_check now db c userID ipAddress =
     (if userID \<noteq> '''' then
        (case AddRecentViewByUser now c userID ipAddress userIPRotationTTL of (discarded, c1) \<Rightarrow>
           (case GetRecentIPCountByUser now c1 userID of
              (Inr userIPCount, c2) \<Rightarrow>
                if userIPCount > maxUserIPs then (Some ErrRotation, db, c2) else (None, db, c2)
            | (Inl err, c2) \<Rightarrow>
                (case GetRecentViewsByUser db userID (now - 60 * 60) of
                   (Inr userViews, db1) \<Rightarrow>
                     if int (length (remdups (map view_ip_address userViews))) > maxUserIPs
                     then (Some ErrRotation, db1, c2)
                     else (None, db1, c2)
                 | (Inl dbErr, db1) \<Rightarrow> (None, db1, c2))))
      else (None, db, c))"

text \<open>\<^verbatim>\<open>UpdateBlogPopularity\<close>: read the four counts, write the score.\<close>

definition UpdateBlogPopularity ::
    "(int \<Rightarrow> int \<Rightarrow> int \<Rightarrow> int \<Rightarrow> real) \<Rightarrow> int \<Rightarrow> mongo \<Rightarrow> string \<Rightarrow> error option \<times> mongo" where
  "UpdateBlogPopularity score now db blogID =
     (case GetBlogCounts db blogID of
        (Inl err, db1) \<Rightarrow> (Some err, db1)
      | (Inr (views, likes, dislikes, comments), db1) \<Rightarrow>
          UpdateBlog_repo now db1 blogID
            (\<lambda>b. b\<lparr>blog_popularity := score views likes dislikes comments\<rparr>))"

text \<open>
  The last step of \<^verbatim>\<open>TrackBlogView\<close>: increment the view count, record the view,
  refresh the popularity (whose error is logged, not returned).
\<close>

definition commit_view ::
    "(int \<Rightarrow> int \<Rightarrow> int \<Rightarrow> int \<Rightarrow> real) \<Rightarrow> int \<Rightarrow> mongo \<Rightarrow> string \<Rightarrow> string \<Rightarrow> string \<Rightarrow> string
       \<Rightarrow> error option \<times> mongo" where
  "commit_view score now db blogID userID ipAddress userAgent =
     (case IncrementViewCount db blogID of
        (Some err, db1) \<Rightarrow> (Some (ErrWrap ''failed to increment view count'' err), db1)
      | (None, db1) \<Rightarrow>
          (case RecordView now db1 blogID userID ipAddress userAgent of
             (Some err, db2) \<Rightarrow> (Some (ErrWrap ''failed to record user view'' err), db2)
           | (None, db2) \<Rightarrow> (None, snd (UpdateBlogPopularity score now db2 blogID))))"

text \<open>
  \<^verbatim>\<open>TrackBlogView\<close>. \<open>cache\<close> is \<^verbatim>\<open>uc.blogCache\<close>: \<open>None\<close> when no cache was
  injected. The result is the error (\<open>None\<close>: the view was tracked, or a bot was
  ignored), the database and the cache.
\<close>

definition TrackBlogView ::
    "(int \<Rightarrow> int \<Rightarrow> int \<Rightarrow> int \<Rightarrow> real) \<Rightarrow> int \<Rightarrow> mongo \<Rightarrow> redis option \<Rightarrow> string \<Rightarrow> string \<Rightarrow> string
       \<Rightarrow> string \<Rightarrow> error option \<times> mongo \<times> redis option" where
  "TrackBlogView score now db cache blogID userID ipAddress userAgent =
     (if blogID = '''' then (Some (ErrNew ''blog ID is required''), db, cache)
      else if userID = '''' \<and> ipAddress = '''' then
        (Some (ErrNew ''unable to track view without user ID or IP address''), db, cache)
      else if isBot userAgent then (None, db, cache)
      else
        (case HasViewedRecently db blogID userID ipAddress of
           (Inl err, db1) \<Rightarrow>
             (Some (ErrWrap ''failed to check for recent blog view'' err), db1, cache)
         | (Inr hasViewed, db1) \<Rightarrow>
             if hasViewed then (Some ErrAlreadyViewed, db1, cache)
             else
               (case cache of
                  None \<Rightarrow>
                    (case commit_view score now db1 blogID userID ipAddress userAgent of
                       (res, db4) \<Rightarrow> (res, db4, None))
                | Some c \<Rightarrow>
                    (case velocity_check now db1 c blogID ipAddress of
                       (Some err, db2, c2) \<Rightarrow> (Some err, db2, Some c2)
                     | (None, db2, c2) \<Rightarrow>
                         (case rotation_check now db2 c2 userID ipAddress of
                            (Some err, db3, c3) \<Rightarrow> (Some err, db3, Some c3)
                          | (None, db3, c3) \<Rightarrow>
                              (case commit_view score now db3 blogID userID ipAddress userAgent of
                                 (res, db4) \<Rightarrow> (res, db4, Some c3)))))))"

subsection \<open>The blog use case: cache-aside reads\<close>

definition publicly_visible :: "BlogStatus \<Rightarrow> bool" where
  "publicly_visible st \<longleftrightarrow> st = BlogStatusPublished \<or> st = BlogStatusArchived"

text \<open>
  \<^verbatim>\<open>GetBlogDetail\<close>. The result is the blog or the error, the database and the cache.
\<close>

definition detail_from_db ::
    "int \<Rightarrow> mongo \<Rightarrow> redis option \<Rightarrow> string \<Rightarrow> (error + Blog) \<times> mongo \<times> redis option" where
  "detail_from_db now db cache slug =
     (case GetBlogBySlug db slug of
        (Inl err, db1) \<Rightarrow> (Inl (ErrWrap ''failed to get blog'' err), db1, cache)
      | (Inr blog, db1) \<Rightarrow>
          if blog_is_deleted blog then (Inl (ErrNew ''blog not found''), db1, cache)
          else if blog_status blog \<noteq> BlogStatusPublished \<and> blog_status blog \<noteq> BlogStatusArchived
          then (Inl (ErrNew ''blog not found''), db1, cache)
          else
            (case cache of
               None \<Rightarrow> (Inr blog, db1, None)
             | Some c \<Rightarrow> (Inr blog, db1, Some (snd (SetBlogBySlug now c slug blog)))))"

definition GetBlogDetail ::
    "int \<Rightarrow> mongo \<Rightarrow> redis option \<Rightarrow> string \<Rightarrow> (error + Blog) \<times> mongo \<times> redis option" where
  "GetBlogDetail now db cache slug =
     (if slug = '''' then (Inl (ErrNew ''slug is required''), db, cache)
      else
        (case cache of
           None \<Rightarrow> detail_from_db now db None slug
         | Some c \<Rightarrow>
             (case GetBlogBySlug_cache now c slug of
                (Inr (Some cached), c1) \<Rightarrow>
                  if blog_status cached = BlogStatusPublished \<or> blog_status cached = BlogStatusArchived
                  then (Inr cached, db, Some c1)
                  else detail_from_db now db (Some c1) slug
              | (r, c1) \<Rightarrow> detail_from_db now db (Some c1) slug)))"

text \<open>
  \<^verbatim>\<open>fmt.Sprintf("%d", n)\<close> for the page numbers of the list key.
\<close>

function show_nat :: "nat \<Rightarrow> string" where
  "show_nat n = (if n < 10 then [''0123456789'' ! n]
                 else show_nat (n div 10) @ [''0123456789'' ! (n mod 10)])"
  by pat_completeness auto
termination
  by (relation "measure (\<lambda>n. n)") auto

definition show_int :: "int \<Rightarrow> string" where
  "show_int i = (if i < 0 then CHR ''-'' # show_nat (nat (- i)) else show_nat (nat i))"

text \<open>
  \<^verbatim>\<open>buildBlogsListCacheKey\<close>. A date bound is given as the text
  \<^verbatim>\<open>t.UTC().Format(time.RFC3339)\<close> of the time, \<open>None\<close> for a \<^verbatim>\<open>nil\<close> pointer.
\<close>

definition buildBlogsListCacheKey ::
    "int \<Rightarrow> int \<Rightarrow> string \<Rightarrow> string \<Rightarrow> string option \<Rightarrow> string option \<Rightarrow> string" where
  "buildBlogsListCacheKey page pageSize sortBy sortOrder dateFrom dateTo =
     (let df = (case dateFrom of None \<Rightarrow> '''' | Some t \<Rightarrow> t);
          dt = (case dateTo of None \<Rightarrow> '''' | Some t \<Rightarrow> t)
      in ''blogs:list:p='' @ show_int page @ '':s='' @ show_int pageSize @ '':sb='' @ sortBy @
         '':so='' @ sortOrder @ '':df='' @ df @ '':dt='' @ dt)"

record BlogFilterOptions =
  opt_Page :: int
  opt_PageSize :: int
  opt_SortBy :: string
  opt_SortOrder :: string
  opt_DateFrom :: "string option"
  opt_DateTo :: "string option"

text \<open>
  \<^verbatim>\<open>GetBlogs\<close> of the use case. \<open>repoGetBlogs\<close> is the method \<^verbatim>\<open>GetBlogs\<close> of the
  repository behind \<^verbatim>\<open>uc.blogRepo\<close> on the current database (an aggregation with sort,
  skip and limit, and a count): whatever it answers for the filter options. Go's
  integer division truncates. The result is the blogs, the total, the page and the
  number of pages, or the error; and the cache.
\<close>

definition GetBlogs ::
    "int \<Rightarrow> (BlogFilterOptions \<Rightarrow> error + Blog list \<times> int) \<Rightarrow> redis option \<Rightarrow> int \<Rightarrow> int \<Rightarrow> string
       \<Rightarrow> string \<Rightarrow> string option \<Rightarrow> string option
       \<Rightarrow> (error + Blog list \<times> int \<times> int \<times> int) \<times> redis option" where
  "GetBlogs now repoGetBlogs cache page pageSize sortBy sortOrder dateFrom dateTo =
     (let from_db = (\<lambda>cache1.
            let page1 = (if page < 1 then 1 else page);
                pageSize1 = (if pageSize < 1 then 10 else pageSize)
            in (case repoGetBlogs \<lparr>opt_Page = page1, opt_PageSize = pageSize1, opt_SortBy = sortBy,
                       opt_SortOrder = sortOrder, opt_DateFrom = dateFrom, opt_DateTo = dateTo\<rparr> of
                  Inl err \<Rightarrow> (Inl (ErrWrap ''failed to get blogs'' err), cache1)
                | Inr (found, totalCount) \<Rightarrow>
                    let filteredBlogs = filter (\<lambda>b. blog_status b = BlogStatusPublished \<or>
                                                   blog_status b = BlogStatusArchived) found;
                        totalPages = (if totalCount smod pageSize1 \<noteq> 0
                                      then totalCount sdiv pageSize1 + 1
                                      else totalCount sdiv pageSize1)
                    in (Inr (filteredBlogs, totalCount, page1, totalPages),
                        (case cache1 of
                           None \<Rightarrow> None
                         | Some c \<Rightarrow> Some (snd (SetBlogsPage now c
                               (buildBlogsListCacheKey page1 pageSize1 sortBy sortOrder dateFrom dateTo)
                               \<lparr>page_blogs = filteredBlogs, page_total = totalCount\<rparr>))))))
      in (case cache of
            None \<Rightarrow> from_db None
          | Some c \<Rightarrow>
              (case GetBlogsPage now c
                      (buildBlogsListCacheKey page pageSize sortBy sortOrder dateFrom dateTo) of
                 (Inr (Some cached), c1) \<Rightarrow>
                   (Inr (page_blogs cached, page_total cached, page,
                         (if pageSize > 0 then (page_total cached + pageSize - 1) sdiv pageSize else 0)),
                    Some c1)
               | (r, c1) \<Rightarrow> from_db (Some c1))))"

subsection \<open>The blog use case: update\<close>

text \<open>\<^verbatim>\<open>strings.ReplaceAll(s, " ", "-")\<close>.\<close>

definition spaces_to_dashes :: "string \<Rightarrow> string" where
  "spaces_to_dashes s = map (\<lambda>c. if c = CHR '' '' then CHR ''-'' else c) s"

text \<open>
  \<^verbatim>\<open>UpdateBlog\<close> of the use case. \<open>uuid\<close> is what \<^verbatim>\<open>uc.uuidgen.NewUUID()\<close> returns and
  \<open>censor\<close> what \<^verbatim>\<open>uc.aiUC.CensorAndCheckBlog\<close> answers for a content. An absent
  argument (\<^verbatim>\<open>nil\<close>) is \<open>None\<close>. The map of updates is built as a function on the
  document, with the number of its entries.
\<close>

definition blog_updates ::
    "int \<Rightarrow> string \<Rightarrow> Blog \<Rightarrow> string option \<Rightarrow> string option \<Rightarrow> BlogStatus option \<Rightarrow> string option
       \<Rightarrow> (Blog \<Rightarrow> Blog) \<times> nat" where
  "blog_updates now uuid blog title content status featuredImageID =
     (let (u1, n1) = (case title of
             None \<Rightarrow> (\<lambda>b. b, 0)
           | Some t \<Rightarrow> (\<lambda>b. b\<lparr>blog_title := t,
                                blog_slug := spaces_to_dashes (ToLower t) @ ''-'' @ uuid\<rparr>, 2));
          (u2, n2) = (case content of
             None \<Rightarrow> (u1, n1)
           | Some c \<Rightarrow> (\<lambda>b. (u1 b)\<lparr>blog_content := c\<rparr>, Suc n1));
          (u3, n3) = (case status of
             None \<Rightarrow> (u2, n2)
           | Some s \<Rightarrow>
               if s = BlogStatusPublished \<and> blog_published_at blog = None
               then (\<lambda>b. (u2 b)\<lparr>blog_status := s, blog_published_at := Some now\<rparr>, Suc (Suc n2))
               else (\<lambda>b. (u2 b)\<lparr>blog_status := s\<rparr>, Suc n2))
      in (case featuredImageID of
            None \<Rightarrow> (u3, n3)
          | Some f \<Rightarrow> (\<lambda>b. (u3 b)\<lparr>blog_featured_image_id := Some f\<rparr>, Suc n3)))"

text \<open>The invalidations after an update, with their errors discarded.\<close>

definition invalidate_after_update :: "int \<Rightarrow> redis \<Rightarrow> string \<Rightarrow> Blog \<Rightarrow> redis" where
  "invalidate_after_update now c oldSlug updatedBlog =
     (let c1 = snd (InvalidateBlogLists now c);
          c2 = (if blog_slug updatedBlog \<noteq> '''' then snd (InvalidateBlogBySlug c1 (blog_slug updatedBlog))
                else c1)
      in if oldSlug \<noteq> '''' \<and> blog_slug updatedBlog \<noteq> oldSlug
         then snd (InvalidateBlogBySlug c2 oldSlug) else c2)"

definition UpdateBlog ::
    "int \<Rightarrow> string \<Rightarrow> (string \<Rightarrow> error + string) \<Rightarrow> mongo \<Rightarrow> redis option \<Rightarrow> string \<Rightarrow> string
       \<Rightarrow> string option \<Rightarrow> string option \<Rightarrow> BlogStatus option \<Rightarrow> string option
       \<Rightarrow> (error + Blog) \<times> mongo \<times> redis option" where
  "UpdateBlog now uuid censor db cache blogID authorID title content status featuredImageID =
     (if blogID = '''' then (Inl (ErrNew ''blog ID is required''), db, cache)
      else if authorID = '''' then (Inl (ErrNew ''author ID is required''), db, cache)
      else
        (case GetBlogByID db blogID of
           (Inl err, db1) \<Rightarrow> (Inl (ErrWrap ''failed to get blog'' err), db1, cache)
         | (Inr blog, db1) \<Rightarrow>
             if blog_author_id blog \<noteq> authorID then
               (Inl (ErrNew ''unauthorized: only the author can update this blog''), db1, cache)
             else
               (case (case content of None \<Rightarrow> None
                      | Some c \<Rightarrow>
                          (case censor c of
                             Inl err \<Rightarrow> Some (ErrWrap ''failed to check content'' err)
                           | Inr feedback \<Rightarrow>
                               if feedback = ''no''
                               then Some (ErrNew ''content contains inappropriate material'')
                               else None)) of
                  Some err \<Rightarrow> (Inl err, db1, cache)
                | None \<Rightarrow>
                    (case blog_updates now uuid blog title content status featuredImageID of
                       (upd, n) \<Rightarrow>
                         (case (if n > 0 then UpdateBlog_repo now db1 blogID upd else (None, db1)) of
                            (Some err, db2) \<Rightarrow> (Inl (ErrWrap ''failed to update blog'' err), db2, cache)
                          | (None, db2) \<Rightarrow>
                              (case GetBlogByID db2 blogID of
                                 (Inl err, db3) \<Rightarrow>
                                   (Inl (ErrWrap ''failed to get updated blog'' err), db3, cache)
                               | (Inr updatedBlog, db3) \<Rightarrow>
                                   (Inr updatedBlog, db3,
                                    (case cache of
                                       None \<Rightarrow> None
                                     | Some c \<Rightarrow> Some (invalidate_after_update now c
                                                         (blog_slug blog) updatedBlog)))))))))"

section \<open>Specification-level notions\<close>

subsection \<open>Reactions\<close>

text \<open>
  The key of the upsert of \<^verbatim>\<open>CreateReaction\<close>: user, target and target type.
\<close>

definition like_key :: "Like \<Rightarrow> string \<times> string \<times> TargetType" where
  "like_key d = (like_user_id d, like_target_id d, like_target_type d)"

text \<open>
  The filter of \<^verbatim>\<open>GetReactionByUserIDAndTargetID\<close>: an active reaction of the user on the target.
\<close>

definition active_for :: "string \<Rightarrow> string \<Rightarrow> Like \<Rightarrow> bool" where
  "active_for u t d \<longleftrightarrow> like_user_id d = u \<and> like_target_id d = t \<and> \<not> like_is_deleted d"

text \<open>
  A well-formed reaction collection: ids are unique (MongoDB's \<^verbatim>\<open>_id\<close>), no two documents
  share user, target and target type, and a user has at most one active reaction on a target.
\<close>

definition wf_likes :: "Like list \<Rightarrow> bool" where
  "wf_likes xs \<longleftrightarrow> distinct (map like_id xs) \<and> distinct (map like_key xs) \<and>
     (\<forall>u t. length (filter (active_for u t) xs) \<le> 1)"

text \<open>
  The reaction state of a user on a target, and how it is read off the collection: by
  the query of \<^verbatim>\<open>GetReactionByUserIDAndTargetID\<close>.
\<close>

datatype reaction = NoReaction | Liked | Disliked

definition reaction_of :: "Like list \<Rightarrow> string \<Rightarrow> string \<Rightarrow> reaction" where
  "reaction_of xs u t =
     (case find (active_for u t) xs of
        None \<Rightarrow> NoReaction
      | Some d \<Rightarrow> (if like_type d = LIKE_TYPE_LIKE then Liked else Disliked))"

text \<open>
  A database none of whose commands fails.
\<close>

definition healthy :: "mongo \<Rightarrow> bool" where
  "healthy db \<longleftrightarrow> (\<forall>n. \<not> mfaults db n)"

text \<open>
  What a toggle to \<open>ty\<close> does to the collection when no command fails: the three
  branches of \<^verbatim>\<open>ToggleLike\<close> and \<^verbatim>\<open>ToggleDislike\<close> with the repository calls unfolded.
\<close>

definition toggle_rows ::
    "LikeType \<Rightarrow> string \<Rightarrow> string \<Rightarrow> string \<Rightarrow> TargetType \<Rightarrow> Like list \<Rightarrow> Like list" where
  "toggle_rows ty uuid u t tt xs =
     (case find (active_for u t) xs of
        None \<Rightarrow>
          if list_ex (\<lambda>y. like_key y = (u, t, tt)) xs then
            update_first (\<lambda>y. like_key y = (u, t, tt))
              (\<lambda>d. d\<lparr>like_type := ty, like_is_deleted := False\<rparr>) xs
          else if list_ex (\<lambda>d. like_id d = uuid) xs then xs
          else xs @ [\<lparr>like_id = uuid, like_user_id = u, like_target_id = t,
                     like_target_type = tt, like_type = ty, like_is_deleted = False\<rparr>]
      | Some d \<Rightarrow>
          if like_type d = ty then
            (if list_ex (\<lambda>y. like_id y = like_id d \<and> \<not> like_is_deleted y) xs then
               update_first (\<lambda>y. like_id y = like_id d \<and> \<not> like_is_deleted y)
                 (\<lambda>d. d\<lparr>like_is_deleted := True\<rparr>) xs
             else xs)
          else
            (if list_ex (\<lambda>y. like_key y = like_key d) xs then
               update_first (\<lambda>y. like_key y = like_key d)
                 (\<lambda>d. d\<lparr>like_type := ty, like_is_deleted := False\<rparr>) xs
             else if list_ex (\<lambda>d. like_id d = uuid) xs then xs
             else xs @ [\<lparr>like_id = uuid, like_user_id = like_user_id d, like_target_id = like_target_id d,
                     like_target_type = like_target_type d, like_type = ty, like_is_deleted = False\<rparr>]))"

text \<open>
  The transition table of the specification (section 4.2), from its words:
  \<^verbatim>\<open>toggleLike\<close> takes None to Liked, Liked to None and Disliked to Liked, and
  \<^verbatim>\<open>toggleDislike\<close> is the mirror image.
\<close>

fun toggleLike_table :: "reaction \<Rightarrow> reaction" where
  "toggleLike_table NoReaction = Liked"
| "toggleLike_table Liked = NoReaction"
| "toggleLike_table Disliked = Liked"

fun toggleDislike_table :: "reaction \<Rightarrow> reaction" where
  "toggleDislike_table NoReaction = Disliked"
| "toggleDislike_table Disliked = NoReaction"
| "toggleDislike_table Liked = Disliked"

definition toggle_table :: "LikeType \<Rightarrow> reaction \<Rightarrow> reaction" where
  "toggle_table ty = (case ty of LIKE_TYPE_LIKE \<Rightarrow> toggleLike_table | LIKE_TYPE_DISLIKE \<Rightarrow> toggleDislike_table)"

text \<open>
  A call of one user on one target: which toggle, the target type passed, the id
  \<^verbatim>\<open>uuid.New()\<close> draws in the call and the time of the call. A sequence of calls runs one
  after the other.
\<close>

datatype toggle_call =
    CallToggleLike TargetType string int
  | CallToggleDislike TargetType string int

fun call_uuid :: "toggle_call \<Rightarrow> string" where
  "call_uuid (CallToggleLike tt uuid now) = uuid"
| "call_uuid (CallToggleDislike tt uuid now) = uuid"

fun apply_call ::
    "(int \<Rightarrow> int \<Rightarrow> int \<Rightarrow> int \<Rightarrow> real) \<Rightarrow> string \<Rightarrow> string \<Rightarrow> mongo \<Rightarrow> toggle_call \<Rightarrow> error option \<times> mongo" where
  "apply_call score u t db (CallToggleLike tt uuid now) = ToggleLike score now uuid db u t tt"
| "apply_call score u t db (CallToggleDislike tt uuid now) = ToggleDislike score now uuid db u t tt"

fun run_calls ::
    "(int \<Rightarrow> int \<Rightarrow> int \<Rightarrow> int \<Rightarrow> real) \<Rightarrow> string \<Rightarrow> string \<Rightarrow> mongo \<Rightarrow> toggle_call list \<Rightarrow> mongo" where
  "run_calls score u t db [] = db"
| "run_calls score u t db (c # cs) = run_calls score u t (snd (apply_call score u t db c)) cs"

fun table_step :: "reaction \<Rightarrow> toggle_call \<Rightarrow> reaction" where
  "table_step r (CallToggleLike tt uuid now) = toggleLike_table r"
| "table_step r (CallToggleDislike tt uuid now) = toggleDislike_table r"

fun call_results ::
    "(int \<Rightarrow> int \<Rightarrow> int \<Rightarrow> int \<Rightarrow> real) \<Rightarrow> string \<Rightarrow> string \<Rightarrow> mongo \<Rightarrow> toggle_call list \<Rightarrow> error option list" where
  "call_results score u t db [] = []"
| "call_results score u t db (c # cs) =
     fst (apply_call score u t db c) # call_results score u t (snd (apply_call score u t db c)) cs"

text \<open>
  An empty database whose commands all succeed.
\<close>

definition db0 :: mongo where
  "db0 = \<lparr>blogs = [], blog_views = [], blog_likes = [], mfaults = (\<lambda>n. False), mops = 0\<rparr>"

text \<open>
  The writes of the reaction repository, \<^verbatim>\<open>CreateReaction\<close> (with the id \<^verbatim>\<open>uuid.New()\<close>
  draws) and \<^verbatim>\<open>DeleteReaction\<close>: every change of the collection is one of them.
\<close>

datatype reaction_write = WriteCreate string Like | WriteDelete string

fun apply_write :: "mongo \<Rightarrow> reaction_write \<Rightarrow> mongo" where
  "apply_write db (WriteCreate uuid like) = snd (CreateReaction uuid db like)"
| "apply_write db (WriteDelete reactionID) = snd (DeleteReaction db reactionID)"

text \<open>A database holding one reaction that was removed (soft-deleted).\<close>

definition db_unliked :: mongo where
  "db_unliked = db0\<lparr>blog_likes :=
     [\<lparr>like_id = ''r1'', like_user_id = ''u1'', like_target_id = ''b1'',
       like_target_type = TargetTypeBlog, like_type = LIKE_TYPE_LIKE, like_is_deleted = True\<rparr>]\<rparr>"

subsection \<open>The popularity score\<close>

text \<open>
  Modelled from the spec: \<^verbatim>\<open>utils.CalculatePopularity\<close> is called by the use cases, and
  package \<^verbatim>\<open>utils\<close> is not among the sources. Section 4.1 gives its shape, a weighted
  combination \<^verbatim>\<open>w1*log(1+views) + w2*likes - w3*dislikes + w4*comments\<close> whose weights are
  tuning parameters; they are parameters here, and the float is read as a real number.
\<close>

definition CalculatePopularity ::
    "real \<Rightarrow> real \<Rightarrow> real \<Rightarrow> real \<Rightarrow> int \<Rightarrow> int \<Rightarrow> int \<Rightarrow> int \<Rightarrow> real" where
  "CalculatePopularity w1 w2 w3 w4 views likes dislikes comments =
     w1 * ln (1 + real_of_int views) + w2 * real_of_int likes - w3 * real_of_int dislikes
       + w4 * real_of_int comments"

subsection \<open>View tracking scenarios\<close>

text \<open>
  A published blog with all counters at zero.
\<close>

definition blog_doc :: "string \<Rightarrow> Blog" where
  "blog_doc i = \<lparr>blog_id = i, blog_title = ''t'', blog_content = ''c'', blog_author_id = ''a'',
     blog_slug = i, blog_status = BlogStatusPublished, blog_view_count = 0, blog_like_count = 0,
     blog_dislike_count = 0, blog_comment_count = 0, blog_popularity = 0,
     blog_featured_image_id = None, blog_published_at = None, blog_updated_at = 0,
     blog_is_deleted = False\<rparr>"

definition eleven_blogs :: "string list" where
  "eleven_blogs = [''b1'', ''b2'', ''b3'', ''b4'', ''b5'', ''b6'', ''b7'', ''b8'', ''b9'', ''b10'', ''b11'']"

text \<open>
  A database holding eleven published blogs and no view record.
\<close>

definition db_blogs :: mongo where
  "db_blogs = db0\<lparr>blogs := map blog_doc eleven_blogs\<rparr>"

text \<open>
  An empty cache whose commands all succeed, and one whose commands all fail.
\<close>

definition cache0 :: redis where
  "cache0 = \<lparr>rkv = [], rfaults = (\<lambda>n. False), rops = 0\<rparr>"

definition cache_down :: redis where
  "cache_down = \<lparr>rkv = [], rfaults = (\<lambda>n. True), rops = 0\<rparr>"

text \<open>
  A history of view events, each a call of \<^verbatim>\<open>TrackBlogView\<close> at its time on the
  database and cache the previous call left: the results of the calls, in order. An
  event is the time, the blog, the user (empty: anonymous) and the IP address.
\<close>

fun track_views ::
    "(int \<Rightarrow> int \<Rightarrow> int \<Rightarrow> int \<Rightarrow> real) \<Rightarrow> mongo \<Rightarrow> redis option \<Rightarrow> string
       \<Rightarrow> (int \<times> string \<times> string \<times> string) list \<Rightarrow> error option list" where
  "track_views score db cache userAgent [] = []"
| "track_views score db cache userAgent ((now, blogID, userID, ipAddress) # evs) =
     (case TrackBlogView score now db cache blogID userID ipAddress userAgent of
        (res, db1, cache1) \<Rightarrow> res # track_views score db1 cache1 userAgent evs)"

text \<open>
  Eleven anonymous views from one IP address on eleven distinct blogs, at the given times.
\<close>

definition one_ip_events :: "int list \<Rightarrow> (int \<times> string \<times> string \<times> string) list" where
  "one_ip_events ts = map (\<lambda>(t, b). (t, b, '''', ''10.0.0.1'')) (zip ts eleven_blogs)"

text \<open>
  One user viewing six distinct blogs from six distinct IP addresses within 50 minutes.
\<close>

definition six_ip_events :: "(int \<times> string \<times> string \<times> string) list" where
  "six_ip_events = map (\<lambda>(t, b, ip). (t, b, ''u1'', ip))
     [(0, ''b1'', ''10.0.0.1''), (600, ''b2'', ''10.0.0.2''), (1200, ''b3'', ''10.0.0.3''),
      (1800, ''b4'', ''10.0.0.4''), (2400, ''b5'', ''10.0.0.5''), (3000, ''b6'', ''10.0.0.6'')]"

text \<open>
  The eleven blogs and one view record of blog b1 from the IP address, taken at time 0.
\<close>

definition db_old_view :: mongo where
  "db_old_view = db_blogs\<lparr>blog_views :=
     [\<lparr>view_blog_id = ''b1'', view_user_id = '''', view_ip_address = ''10.0.0.1'',
       view_user_agent = ''Mozilla/5.0'', view_viewed_at = 0\<rparr>]\<rparr>"

text \<open>
  The view count of the blog with this id that is not deleted.
\<close>

definition view_count_of :: "mongo \<Rightarrow> string \<Rightarrow> int option" where
  "view_count_of db blogID =
     map_option blog_view_count (find (\<lambda>b. blog_id b = blogID \<and> \<not> blog_is_deleted b) (blogs db))"

text \<open>
  No view record of the blog from this IP address or by this user: what
  \<^verbatim>\<open>HasViewedRecently\<close> looks for.
\<close>

definition no_prior_view :: "mongo \<Rightarrow> string \<Rightarrow> string \<Rightarrow> string \<Rightarrow> bool" where
  "no_prior_view db blogID userID ipAddress \<longleftrightarrow>
     \<not> list_ex (\<lambda>v. view_blog_id v = blogID \<and>
          (view_ip_address v = ipAddress \<or> (userID \<noteq> '''' \<and> view_user_id v = userID)))
        (blog_views db)"

text \<open>The error \<^verbatim>\<open>TrackBlogView\<close> returns when the insert of the view record fails.\<close>

definition ErrRecordFailed :: error where
  "ErrRecordFailed = ErrWrap ''failed to record user view''
     (ErrWrap ''failed to record blog view'' ErrMongo)"

text \<open>The eleven blogs on a database whose third command fails.\<close>

definition db_record_fails :: mongo where
  "db_record_fails = db_blogs\<lparr>mfaults := (\<lambda>n. n = 2)\<rparr>"

section \<open>Properties\<close>

subsection \<open>Lists and single documents\<close>

lemma update_first_length: "length (update_first P f xs) = length xs"
  by (induction xs) auto

lemma update_first_as_map:
  "length (filter P xs) \<le> 1 \<Longrightarrow> update_first P f xs = map (\<lambda>y. if P y then f y else y) xs"
proof (induction xs)
  case Nil then show ?case by simp
next
  case (Cons x xs)
  show ?case
  proof (cases "P x")
    case True
    with Cons.prems have "filter P xs = []" by simp
    then have "\<forall>y\<in>set xs. \<not> P y" by (simp add: filter_empty_conv)
    then have "map (\<lambda>y. if P y then f y else y) xs = xs" by (induction xs) auto
    with True show ?thesis by simp
  next
    case False
    with Cons show ?thesis by simp
  qed
qed

lemma distinct_filter_le1:
  "distinct (map k xs) \<Longrightarrow> length (filter (\<lambda>y. k y = a \<and> Q y) xs) \<le> 1"
proof (induction xs)
  case Nil then show ?case by simp
next
  case (Cons x xs)
  show ?case
  proof (cases "k x = a")
    case True
    with Cons.prems have "\<forall>y\<in>set xs. k y \<noteq> a" by (auto simp: image_iff)
    then have "filter (\<lambda>y. k y = a \<and> Q y) xs = []" by (simp add: filter_empty_conv)
    then show ?thesis by simp
  next
    case False
    with Cons show ?thesis by simp
  qed
qed

lemma distinct_filter_le1': "distinct (map k xs) \<Longrightarrow> length (filter (\<lambda>y. k y = a) xs) \<le> 1"
  using distinct_filter_le1 [of k xs a "\<lambda>_. True"] by simp

lemma find_as_filter:
  "find P xs = (case filter P xs of [] \<Rightarrow> None | x # _ \<Rightarrow> Some x)"
  by (induction xs) auto

lemma filter_map_cong:
  "(\<And>y. y \<in> set xs \<Longrightarrow> Q (h y) = R y) \<Longrightarrow> filter Q (map h xs) = map h (filter R xs)"
  by (induction xs) auto

text \<open>(A) revive or flip: the row with key k gets the type and is active.\<close>

lemma set_type_step:
  fixes u t :: string and tt :: TargetType and ty :: LikeType
  assumes wf: "wf_likes xs"
    and ex: "\<exists>y\<in>set xs. like_key y = (u, t, tt)"
    and only: "\<And>y. y \<in> set xs \<Longrightarrow> active_for u t y \<Longrightarrow> like_key y = (u, t, tt)"
  defines "h \<equiv> (\<lambda>y. if like_key y = (u, t, tt)
                     then y\<lparr>like_type := ty, like_is_deleted := False\<rparr> else y)"
  shows "wf_likes (map h xs)"
    and "reaction_of (map h xs) u t = (if ty = LIKE_TYPE_LIKE then Liked else Disliked)"
    and "map like_id (map h xs) = map like_id xs"
    and "(u', t') \<noteq> (u, t) \<Longrightarrow> reaction_of (map h xs) u' t' = reaction_of xs u' t'"
proof -
  have hid: "like_id (h y) = like_id y" and hkey: "like_key (h y) = like_key y" for y
    by (auto simp: h_def like_key_def)
  show ids: "map like_id (map h xs) = map like_id xs" by (simp add: hid)
  have keys: "map like_key (map h xs) = map like_key xs" by (simp add: hkey)
  have other: "filter (active_for u' t') (map h xs) = map h (filter (active_for u' t') xs)"
    if "(u', t') \<noteq> (u, t)" for u' t'
    using that by (intro filter_map_cong) (auto simp: h_def active_for_def like_key_def)
  have otherid: "map h (filter (active_for u' t') xs) = filter (active_for u' t') xs"
    if "(u', t') \<noteq> (u, t)" for u' t'
    using that by (intro map_idI) (auto simp: h_def active_for_def like_key_def)
  have same: "filter (active_for u t) (map h xs) = map h (filter (\<lambda>y. like_key y = (u, t, tt)) xs)"
  proof (intro filter_map_cong)
    fix y assume "y \<in> set xs"
    then show "active_for u t (h y) = (like_key y = (u, t, tt))"
      using only [of y] by (auto simp: h_def active_for_def like_key_def)
  qed
  have le: "length (filter (\<lambda>y. like_key y = (u, t, tt)) xs) \<le> 1"
    using wf distinct_filter_le1' [of like_key xs "(u, t, tt)"] by (simp add: wf_likes_def)
  have "length (filter (active_for u' t') (map h xs)) \<le> 1" for u' t'
  proof (cases "(u', t') = (u, t)")
    case True then show ?thesis using same le by simp
  next
    case False then show ?thesis using other [OF False] wf by (simp add: wf_likes_def)
  qed
  then show "wf_likes (map h xs)"
    using wf ids keys by (simp add: wf_likes_def del: map_map)
  from ex obtain y where y: "y \<in> set xs" "like_key y = (u, t, tt)" by blast
  then have "filter (\<lambda>y. like_key y = (u, t, tt)) xs \<noteq> []" by (auto simp: filter_empty_conv)
  then obtain z zs where z: "filter (\<lambda>y. like_key y = (u, t, tt)) xs = z # zs"
    by (cases "filter (\<lambda>y. like_key y = (u, t, tt)) xs") auto
  then have "z \<in> set (filter (\<lambda>y. like_key y = (u, t, tt)) xs)" by simp
  then have "like_key z = (u, t, tt)" by simp
  then have "like_type (h z) = ty" by (simp add: h_def)
  moreover have "filter (active_for u t) (map h xs) = h z # map h zs"
    using same z by simp
  ultimately show "reaction_of (map h xs) u t = (if ty = LIKE_TYPE_LIKE then Liked else Disliked)"
    by (simp add: reaction_of_def find_as_filter)
  show "reaction_of (map h xs) u' t' = reaction_of xs u' t'" if "(u', t') \<noteq> (u, t)"
    using other [OF that] otherid [OF that] by (simp add: reaction_of_def find_as_filter)
qed

text \<open>(B) insert: a new active row, when no row has the key and none is active.\<close>

lemma insert_step:
  fixes u t :: string and tt :: TargetType and ty :: LikeType
  assumes wf: "wf_likes xs"
    and nokey: "\<not> list_ex (\<lambda>y. like_key y = (u, t, tt)) xs"
    and noact: "find (active_for u t) xs = None"
    and fresh: "uuid \<notin> like_id ` set xs"
  defines "new \<equiv> \<lparr>like_id = uuid, like_user_id = u, like_target_id = t,
                    like_target_type = tt, like_type = ty, like_is_deleted = False\<rparr>"
  shows "wf_likes (xs @ [new])"
    and "reaction_of (xs @ [new]) u t = (if ty = LIKE_TYPE_LIKE then Liked else Disliked)"
    and "(u', t') \<noteq> (u, t) \<Longrightarrow> reaction_of (xs @ [new]) u' t' = reaction_of xs u' t'"
proof -
  have none: "filter (active_for u t) xs = []"
    using noact by (simp add: find_None_iff filter_empty_conv)
  have k: "like_key new = (u, t, tt)" and a: "active_for u t new"
    by (simp_all add: new_def like_key_def active_for_def)
  have na: "\<not> active_for u' t' new" if "(u', t') \<noteq> (u, t)" for u' t'
    using that by (auto simp: new_def active_for_def)
  have "length (filter (active_for u' t') (xs @ [new])) \<le> 1" for u' t'
  proof (cases "(u', t') = (u, t)")
    case True then show ?thesis using none a by simp
  next
    case False then show ?thesis using na [OF False] wf by (simp add: wf_likes_def)
  qed
  moreover have "(u, t, tt) \<notin> like_key ` set xs"
    using nokey by (auto simp: list_ex_iff)
  ultimately show "wf_likes (xs @ [new])"
    using wf fresh k by (simp add: wf_likes_def new_def)
  show "reaction_of (xs @ [new]) u t = (if ty = LIKE_TYPE_LIKE then Liked else Disliked)"
    using none a by (simp add: reaction_of_def find_as_filter new_def)
  show "reaction_of (xs @ [new]) u' t' = reaction_of xs u' t'" if "(u', t') \<noteq> (u, t)"
    using na [OF that] by (simp add: reaction_of_def find_as_filter)
qed

text \<open>(C) soft delete of the active row with id rid.\<close>

lemma delete_step:
  fixes u t :: string
  assumes wf: "wf_likes xs"
    and act: "find (active_for u t) xs = Some d"
  defines "h \<equiv> (\<lambda>y. if like_id y = like_id d \<and> \<not> like_is_deleted y
                     then y\<lparr>like_is_deleted := True\<rparr> else y)"
  shows "wf_likes (map h xs)"
    and "reaction_of (map h xs) u t = NoReaction"
    and "map like_id (map h xs) = map like_id xs"
    and "(u', t') \<noteq> (u, t) \<Longrightarrow> reaction_of (map h xs) u' t' = reaction_of xs u' t'"
proof -
  have hid: "like_id (h y) = like_id y" and hkey: "like_key (h y) = like_key y" for y
    by (auto simp: h_def like_key_def)
  show ids: "map like_id (map h xs) = map like_id xs" by (simp add: hid)
  have keys: "map like_key (map h xs) = map like_key xs" by (simp add: hkey)
  from act have d: "d \<in> set xs" "active_for u t d"
    by (auto simp: find_Some_iff)
  have uniq: "y = d" if "y \<in> set xs" "like_id y = like_id d" for y
    using wf that d(1) by (auto simp: wf_likes_def distinct_map inj_on_def)
  have fl: "filter (active_for u' t') (map h xs)
             = map h (filter (\<lambda>y. active_for u' t' y \<and> like_id y \<noteq> like_id d) xs)" for u' t'
    by (intro filter_map_cong) (auto simp: h_def active_for_def)
  have "length (filter (\<lambda>y. active_for u' t' y \<and> like_id y \<noteq> like_id d) xs)
          \<le> length (filter (active_for u' t') xs)" for u' t'
    by (induction xs) auto
  then have "length (filter (active_for u' t') (map h xs)) \<le> 1" for u' t'
    using wf fl [of u' t'] by (simp add: wf_likes_def) (meson le_trans)
  then show "wf_likes (map h xs)"
    using wf ids keys by (simp add: wf_likes_def del: map_map)
  have "filter (\<lambda>y. active_for u t y \<and> like_id y \<noteq> like_id d) xs = []"
  proof -
    have le1: "length (filter (active_for u t) xs) \<le> 1" using wf by (simp add: wf_likes_def)
    have "d \<in> set (filter (active_for u t) xs)" using d by simp
    then have "filter (active_for u t) xs = [d]"
      using le1 by (cases "filter (active_for u t) xs") auto
    then have "set (filter (active_for u t) xs) = {d}" by simp
    then have "\<And>y. y \<in> set xs \<Longrightarrow> active_for u t y \<Longrightarrow> y = d" by auto
    then show ?thesis by (auto simp: filter_empty_conv)
  qed
  then show "reaction_of (map h xs) u t = NoReaction"
    using fl [of u t] by (simp add: reaction_of_def find_as_filter)
  show "reaction_of (map h xs) u' t' = reaction_of xs u' t'" if ne: "(u', t') \<noteq> (u, t)"
  proof -
    have "filter (\<lambda>y. active_for u' t' y \<and> like_id y \<noteq> like_id d) xs = filter (active_for u' t') xs"
      using ne d uniq by (intro filter_cong) (auto simp: active_for_def)
    moreover have "map h (filter (active_for u' t') xs) = filter (active_for u' t') xs"
      using ne d uniq by (intro map_idI) (auto simp: h_def active_for_def)
    ultimately show ?thesis using fl [of u' t'] by (simp add: reaction_of_def find_as_filter)
  qed
qed

lemma mongo_cmd_healthy: "healthy db \<Longrightarrow> mongo_cmd db = (False, db\<lparr>mops := Suc (mops db)\<rparr>)"
  by (simp add: mongo_cmd_def healthy_def)

lemma mongo_cmd_fields:
  "blog_likes (snd (mongo_cmd db)) = blog_likes db"
  "blogs (snd (mongo_cmd db)) = blogs db"
  "blog_views (snd (mongo_cmd db)) = blog_views db"
  "mfaults (snd (mongo_cmd db)) = mfaults db"
  by (simp_all add: mongo_cmd_def)

lemma healthy_upd [simp]:
  "healthy (db\<lparr>mops := n\<rparr>) = healthy db"
  "healthy (db\<lparr>blog_likes := xs\<rparr>) = healthy db"
  "healthy (db\<lparr>blogs := bs\<rparr>) = healthy db"
  "healthy (db\<lparr>blog_views := vs\<rparr>) = healthy db"
  by (simp_all add: healthy_def)

lemma refresh_counts_likes:
  "blog_likes (refresh_counts score now db t tt) = blog_likes db"
  "mfaults (refresh_counts score now db t tt) = mfaults db"
  "blog_views (refresh_counts score now db t tt) = blog_views db"
  by (auto simp: refresh_counts_def CountLikesByTargetID_def CountDislikesByTargetID_def
      GetBlogByID_def UpdateBlog_repo_def mongo_cmd_def Let_def
      split: prod.splits sum.splits option.splits if_splits)

lemma healthy_refresh [simp]: "healthy (refresh_counts score now db t tt) = healthy db"
  by (simp add: healthy_def refresh_counts_likes)

lemma active_for_eta:
  "(\<lambda>d. like_user_id d = u \<and> like_target_id d = t \<and> \<not> like_is_deleted d) = active_for u t"
  by (auto simp: active_for_def)

lemma reaction_filter_new:
  "reaction_filter \<lparr>like_id = i, like_user_id = u, like_target_id = t, like_target_type = tt,
       like_type = ty, like_is_deleted = dl\<rparr> = (\<lambda>y. like_key y = (u, t, tt))"
  by (auto simp: reaction_filter_def like_key_def)

lemma reaction_filter_upd:
  "reaction_filter (d\<lparr>like_type := ty\<rparr>) = (\<lambda>y. like_key y = like_key d)"
  by (auto simp: reaction_filter_def like_key_def)

lemma not_found_simps [simp]:
  "is_reaction_not_found ErrReactionNotFound"
  "\<not> is_reaction_not_found (ErrWrap ''failed to retrieve reaction'' ErrMongo)"
  by (simp_all add: is_reaction_not_found_def ErrReactionNotFound_def)

lemma ToggleLike_rows:
  assumes "healthy db"
  shows "blog_likes (snd (ToggleLike score now uuid db u t tt)) = toggle_rows LIKE_TYPE_LIKE uuid u t tt (blog_likes db)"
    and "healthy (snd (ToggleLike score now uuid db u t tt))"
  using assms
  by (auto simp: ToggleLike_def GetReactionByUserIDAndTargetID_def CreateReaction_def
      DeleteReaction_def mongo_cmd_healthy refresh_counts_likes active_for_eta toggle_rows_def
      reaction_filter_new reaction_filter_upd
      split: option.splits prod.splits)

lemma ToggleDislike_rows:
  assumes "healthy db"
  shows "blog_likes (snd (ToggleDislike score now uuid db u t tt)) = toggle_rows LIKE_TYPE_DISLIKE uuid u t tt (blog_likes db)"
    and "healthy (snd (ToggleDislike score now uuid db u t tt))"
  using assms
  by (auto simp: ToggleDislike_def GetReactionByUserIDAndTargetID_def CreateReaction_def
      DeleteReaction_def mongo_cmd_healthy refresh_counts_likes active_for_eta toggle_rows_def
      reaction_filter_new reaction_filter_upd
      split: option.splits prod.splits)

lemma find_active_in: "find (active_for u t) xs = Some d \<Longrightarrow> d \<in> set xs \<and> active_for u t d"
  by (auto simp: find_Some_iff)

lemma toggle_rows_step:
  fixes u t :: string
  assumes wf: "wf_likes xs" and fresh: "uuid \<notin> like_id ` set xs"
  shows "wf_likes (toggle_rows ty uuid u t tt xs)"
    and "reaction_of (toggle_rows ty uuid u t tt xs) u t = toggle_table ty (reaction_of xs u t)"
    and "like_id ` set (toggle_rows ty uuid u t tt xs) \<subseteq> insert uuid (like_id ` set xs)"
    and "(u', t') \<noteq> (u, t) \<Longrightarrow> reaction_of (toggle_rows ty uuid u t tt xs) u' t' = reaction_of xs u' t'"
proof -
  have dk: "distinct (map like_key xs)" and di: "distinct (map like_id xs)"
    and le1: "\<And>u t. length (filter (active_for u t) xs) \<le> 1"
    using wf by (simp_all add: wf_likes_def)
  have nouuid: "\<not> list_ex (\<lambda>d. like_id d = uuid) xs"
    using fresh by (auto simp: list_ex_iff)
  let ?goal = "\<lambda>ys. wf_likes ys \<and> reaction_of ys u t = toggle_table ty (reaction_of xs u t) \<and>
      like_id ` set ys \<subseteq> insert uuid (like_id ` set xs) \<and>
      ((u', t') \<noteq> (u, t) \<longrightarrow> reaction_of ys u' t' = reaction_of xs u' t')"
  have "?goal (toggle_rows ty uuid u t tt xs)"
  proof (cases "find (active_for u t) xs")
    case None
    then have r0: "reaction_of xs u t = NoReaction" by (simp add: reaction_of_def)
    have tbl: "toggle_table ty NoReaction = (if ty = LIKE_TYPE_LIKE then Liked else Disliked)"
      by (cases ty) (simp_all add: toggle_table_def)
    show ?thesis
    proof (cases "list_ex (\<lambda>y. like_key y = (u, t, tt)) xs")
      case True
      have m: "update_first (\<lambda>y. like_key y = (u, t, tt)) (\<lambda>d. d\<lparr>like_type := ty, like_is_deleted := False\<rparr>) xs
          = map (\<lambda>y. if like_key y = (u, t, tt) then y\<lparr>like_type := ty, like_is_deleted := False\<rparr> else y) xs"
        using dk by (intro update_first_as_map distinct_filter_le1')
      have ex: "\<exists>y\<in>set xs. like_key y = (u, t, tt)" using True by (simp add: list_ex_iff)
      have only: "\<And>y. y \<in> set xs \<Longrightarrow> active_for u t y \<Longrightarrow> like_key y = (u, t, tt)"
        using None by (auto simp: find_None_iff)
      have ids: "like_id ` set (map (\<lambda>y. if like_key y = (u, t, tt) then y\<lparr>like_type := ty, like_is_deleted := False\<rparr> else y) xs)
           = like_id ` set xs"
        using set_type_step(3) [OF wf ex only, where ty = ty] by (metis (no_types, lifting) list.set_map)
      show ?thesis
        using set_type_step(1) [OF wf ex only, where ty = ty] set_type_step(2) [OF wf ex only, where ty = ty]
          set_type_step(4) [OF wf ex only, where ty = ty and u' = u' and t' = t']
          None True r0 tbl ids
        by (simp add: toggle_rows_def m del: set_map) blast
    next
      case False
      show ?thesis
        using insert_step(1) [OF wf False None fresh, where ty = ty] insert_step(2) [OF wf False None fresh, where ty = ty]
          insert_step(3) [OF wf False None fresh, where ty = ty and u' = u' and t' = t']
          None False nouuid r0 tbl
        by (auto simp: toggle_rows_def)
    qed
  next
    case (Some d)
    note din = find_active_in [OF Some]
    have r0: "reaction_of xs u t = (if like_type d = LIKE_TYPE_LIKE then Liked else Disliked)"
      using Some by (simp add: reaction_of_def)
    show ?thesis
    proof (cases "like_type d = ty")
      case True
      have ex: "list_ex (\<lambda>y. like_id y = like_id d \<and> \<not> like_is_deleted y) xs"
        using din by (auto simp: list_ex_iff active_for_def)
      have m: "update_first (\<lambda>y. like_id y = like_id d \<and> \<not> like_is_deleted y) (\<lambda>d. d\<lparr>like_is_deleted := True\<rparr>) xs
          = map (\<lambda>y. if like_id y = like_id d \<and> \<not> like_is_deleted y then y\<lparr>like_is_deleted := True\<rparr> else y) xs"
        using di by (intro update_first_as_map distinct_filter_le1)
      have tbl: "toggle_table ty (reaction_of xs u t) = NoReaction"
        using True r0 by (cases ty) (auto simp: toggle_table_def)
      have ids: "like_id ` set (map (\<lambda>y. if like_id y = like_id d \<and> \<not> like_is_deleted y then y\<lparr>like_is_deleted := True\<rparr> else y) xs)
           = like_id ` set xs"
        using delete_step(3) [OF wf Some] by (metis (no_types, lifting) list.set_map)
      show ?thesis
        using delete_step(1,2) [OF wf Some] delete_step(4) [OF wf Some, where u' = u' and t' = t'] Some True ex tbl ids
        by (simp add: toggle_rows_def m del: set_map) blast
    next
      case False
      have kd: "like_key d = (u, t, like_target_type d)"
        using din by (simp add: like_key_def active_for_def)
      have exl: "list_ex (\<lambda>y. like_key y = like_key d) xs"
        using din by (auto simp: list_ex_iff)
      have ex: "\<exists>y\<in>set xs. like_key y = (u, t, like_target_type d)"
        using din kd by auto
      have "filter (active_for u t) xs = [d]"
        using le1 [of u t] Some by (cases "filter (active_for u t) xs") (auto simp: find_as_filter)
      then have "set (filter (active_for u t) xs) = {d}" by simp
      then have only: "\<And>y. y \<in> set xs \<Longrightarrow> active_for u t y \<Longrightarrow> like_key y = (u, t, like_target_type d)"
        using kd by auto
      have m: "update_first (\<lambda>y. like_key y = like_key d) (\<lambda>d. d\<lparr>like_type := ty, like_is_deleted := False\<rparr>) xs
          = map (\<lambda>y. if like_key y = (u, t, like_target_type d) then y\<lparr>like_type := ty, like_is_deleted := False\<rparr> else y) xs"
        using dk unfolding kd by (intro update_first_as_map distinct_filter_le1')
      have tbl: "toggle_table ty (reaction_of xs u t) = (if ty = LIKE_TYPE_LIKE then Liked else Disliked)"
        using False r0 by (cases ty; cases "like_type d") (auto simp: toggle_table_def)
      have ids: "like_id ` set (map (\<lambda>y. if like_key y = (u, t, like_target_type d) then y\<lparr>like_type := ty, like_is_deleted := False\<rparr> else y) xs)
           = like_id ` set xs"
        using set_type_step(3) [OF wf ex only, where ty = ty] by (metis (no_types, lifting) list.set_map)
      show ?thesis
        using set_type_step(1) [OF wf ex only, where ty = ty] set_type_step(2) [OF wf ex only, where ty = ty]
          set_type_step(4) [OF wf ex only, where ty = ty and u' = u' and t' = t']
          Some False exl tbl ids
        by (simp add: toggle_rows_def m del: set_map) blast
    qed
  qed
  then show "wf_likes (toggle_rows ty uuid u t tt xs)"
    and "reaction_of (toggle_rows ty uuid u t tt xs) u t = toggle_table ty (reaction_of xs u t)"
    and "like_id ` set (toggle_rows ty uuid u t tt xs) \<subseteq> insert uuid (like_id ` set xs)"
    and "(u', t') \<noteq> (u, t) \<Longrightarrow> reaction_of (toggle_rows ty uuid u t tt xs) u' t' = reaction_of xs u' t'"
    by blast+
qed

lemma apply_call_step:
  assumes "healthy db" "wf_likes (blog_likes db)" "call_uuid c \<notin> like_id ` set (blog_likes db)"
  shows "healthy (snd (apply_call score u t db c))"
    and "wf_likes (blog_likes (snd (apply_call score u t db c)))"
    and "reaction_of (blog_likes (snd (apply_call score u t db c))) u t
           = table_step (reaction_of (blog_likes db) u t) c"
    and "like_id ` set (blog_likes (snd (apply_call score u t db c)))
           \<subseteq> insert (call_uuid c) (like_id ` set (blog_likes db))"
  using assms toggle_rows_step [of "blog_likes db" "call_uuid c" _ u t]
  by (cases c; simp add: ToggleLike_rows ToggleDislike_rows toggle_table_def)+

lemma run_calls_inv:
  assumes "healthy db" "wf_likes (blog_likes db)" "distinct (map call_uuid cs)"
    "set (map call_uuid cs) \<inter> like_id ` set (blog_likes db) = {}"
  shows "wf_likes (blog_likes (run_calls score u t db cs)) \<and>
         reaction_of (blog_likes (run_calls score u t db cs)) u t
           = foldl table_step (reaction_of (blog_likes db) u t) cs"
  using assms
proof (induction cs arbitrary: db)
  case Nil
  then show ?case by simp
next
  case (Cons c cs)
  let ?db = "snd (apply_call score u t db c)"
  have f: "call_uuid c \<notin> like_id ` set (blog_likes db)" using Cons.prems(4) by auto
  note st = apply_call_step [OF Cons.prems(1,2) f, of score u t]
  have "call_uuid x \<notin> like_id ` set (blog_likes ?db)" if "x \<in> set cs" for x
  proof
    assume "call_uuid x \<in> like_id ` set (blog_likes ?db)"
    then have "call_uuid x = call_uuid c \<or> call_uuid x \<in> like_id ` set (blog_likes db)"
      using st(4) by blast
    moreover have "call_uuid x \<noteq> call_uuid c"
      using that Cons.prems(3) by (metis distinct.simps(2) image_eqI list.simps(9) set_map)
    moreover have "call_uuid x \<notin> like_id ` set (blog_likes db)"
      using that Cons.prems(4) by (metis disjoint_iff image_eqI list.set_intros(2) set_map)
    ultimately show False by blast
  qed
  then have "set (map call_uuid cs) \<inter> like_id ` set (blog_likes ?db) = {}" by auto
  then show ?case
    using Cons.IH [of ?db] st(1,2,3) Cons.prems(3) by simp
qed

lemma ToggleLike_nil:
  assumes "healthy db" "uuid \<notin> like_id ` set (blog_likes db)"
  shows "fst (ToggleLike score now uuid db u t tt) = None"
  using assms
  by (auto simp: ToggleLike_def GetReactionByUserIDAndTargetID_def CreateReaction_def
      DeleteReaction_def mongo_cmd_healthy active_for_eta list_ex_iff
      reaction_filter_new reaction_filter_upd dest!: find_active_in
      split: option.splits prod.splits)
    (auto simp: active_for_def)

lemma ToggleDislike_nil:
  assumes "healthy db" "uuid \<notin> like_id ` set (blog_likes db)"
  shows "fst (ToggleDislike score now uuid db u t tt) = None"
  using assms
  by (auto simp: ToggleDislike_def GetReactionByUserIDAndTargetID_def CreateReaction_def
      DeleteReaction_def mongo_cmd_healthy active_for_eta list_ex_iff
      reaction_filter_new reaction_filter_upd dest!: find_active_in
      split: option.splits prod.splits)
    (auto simp: active_for_def)

lemma update_first_map_inv: "(\<And>x. k (f x) = k x) \<Longrightarrow> map k (update_first P f xs) = map k xs"
  by (induction xs) auto

lemma toggle_rows_same_ids:
  assumes "find (active_for u t) xs = Some d"
  shows "map like_id (toggle_rows ty uuid u t tt xs) = map like_id xs"
  using assms find_active_in [OF assms]
  by (auto simp: toggle_rows_def update_first_map_inv list_ex_iff)

lemma apply_call_nil:
  assumes "healthy db" "call_uuid c \<notin> like_id ` set (blog_likes db)"
  shows "fst (apply_call score u t db c) = None"
  using assms by (cases c) (simp_all add: ToggleLike_nil ToggleDislike_nil)

lemma call_results_nil:
  assumes "healthy db" "wf_likes (blog_likes db)" "distinct (map call_uuid cs)"
    "set (map call_uuid cs) \<inter> like_id ` set (blog_likes db) = {}"
  shows "call_results score u t db cs = replicate (length cs) None"
  using assms
proof (induction cs arbitrary: db)
  case Nil
  then show ?case by simp
next
  case (Cons c cs)
  let ?db = "snd (apply_call score u t db c)"
  have f: "call_uuid c \<notin> like_id ` set (blog_likes db)" using Cons.prems(4) by auto
  note st = apply_call_step [OF Cons.prems(1,2) f, of score u t]
  have "call_uuid x \<notin> like_id ` set (blog_likes ?db)" if "x \<in> set cs" for x
  proof
    assume "call_uuid x \<in> like_id ` set (blog_likes ?db)"
    then have "call_uuid x = call_uuid c \<or> call_uuid x \<in> like_id ` set (blog_likes db)"
      using st(4) by blast
    moreover have "call_uuid x \<noteq> call_uuid c"
      using that Cons.prems(3) by (metis distinct.simps(2) image_eqI list.simps(9) set_map)
    moreover have "call_uuid x \<notin> like_id ` set (blog_likes db)"
      using that Cons.prems(4) by (metis disjoint_iff image_eqI list.set_intros(2) set_map)
    ultimately show False by blast
  qed
  then have "set (map call_uuid cs) \<inter> like_id ` set (blog_likes ?db) = {}" by auto
  then show ?case
    using Cons.IH [of ?db] st(1,2) Cons.prems(3) apply_call_nil [OF Cons.prems(1) f, of score u t]
    by simp
qed

lemma toggle_rows_length: "length (toggle_rows ty uuid u t tt xs) \<le> Suc (length xs)"
  by (auto simp: toggle_rows_def update_first_length split: option.splits)

subsection \<open>C1: the toggle state machine\<close>

text \<open>
  C1. For every sequence of \<^verbatim>\<open>ToggleLike\<close> and \<^verbatim>\<open>ToggleDislike\<close> calls of one user
  on one target, run one after the other on a database whose commands succeed and
  whose reaction collection is well formed, with fresh ids drawn by \<^verbatim>\<open>uuid.New()\<close>:
  the reaction state at the end is the transition table of section 4.2 applied to the
  sequence; after every call (after every prefix of the sequence) every user has at
  most one active reaction on every target; and every call returns \<^verbatim>\<open>nil\<close>. Row by row:
  a toggle from Liked or Disliked keeps the documents and their ids (a soft delete, or
  a change of \<^verbatim>\<open>type\<close> in place), and a toggle from None adds at most one document.
\<close>

theorem C1_toggle_sequence:
  assumes "healthy db" and "wf_likes (blog_likes db)" and "distinct (map call_uuid cs)"
    and "set (map call_uuid cs) \<inter> like_id ` set (blog_likes db) = {}"
  shows "reaction_of (blog_likes (run_calls score u t db cs)) u t
           = foldl table_step (reaction_of (blog_likes db) u t) cs \<and>
         (\<forall>n u' t'. length (filter (active_for u' t')
              (blog_likes (run_calls score u t db (take n cs)))) \<le> 1) \<and>
         call_results score u t db cs = replicate (length cs) None \<and>
         (\<forall>c. reaction_of (blog_likes db) u t \<noteq> NoReaction \<longrightarrow>
              map like_id (blog_likes (snd (apply_call score u t db c))) = map like_id (blog_likes db)) \<and>
         (\<forall>c. length (blog_likes (snd (apply_call score u t db c))) \<le> Suc (length (blog_likes db)))"
proof -
  have "length (filter (active_for u' t') (blog_likes (run_calls score u t db (take n cs)))) \<le> 1"
    for n u' t'
  proof -
    have d: "distinct (map call_uuid (take n cs))"
      using assms(3) by (simp add: distinct_take take_map [symmetric])
    have "set (map call_uuid (take n cs)) \<subseteq> set (map call_uuid cs)"
      by (metis set_take_subset take_map)
    then have i: "set (map call_uuid (take n cs)) \<inter> like_id ` set (blog_likes db) = {}"
      using assms(4) by blast
    show ?thesis
      using run_calls_inv [OF assms(1,2) d i, of score u t] by (simp add: wf_likes_def)
  qed
  moreover have "map like_id (blog_likes (snd (apply_call score u t db c))) = map like_id (blog_likes db)"
    if "reaction_of (blog_likes db) u t \<noteq> NoReaction" for c
  proof -
    from that obtain d where "find (active_for u t) (blog_likes db) = Some d"
      by (auto simp: reaction_of_def split: option.splits)
    then show ?thesis
      using assms(1) by (cases c) (simp_all add: ToggleLike_rows ToggleDislike_rows toggle_rows_same_ids)
  qed
  moreover have "length (blog_likes (snd (apply_call score u t db c))) \<le> Suc (length (blog_likes db))"
    for c
    using assms(1)
    by (cases c) (simp_all add: ToggleLike_rows ToggleDislike_rows toggle_rows_length)
  ultimately show ?thesis
    using run_calls_inv [OF assms, of score u t] call_results_nil [OF assms, of score u t]
    by blast
qed

theorem C1_toggle_sequence_witness:
  "reaction_of (blog_likes (run_calls (\<lambda>v l d c. 0) ''u1'' ''b1'' db0
       [CallToggleLike TargetTypeBlog ''r1'' 10, CallToggleDislike TargetTypeBlog ''r2'' 20,
        CallToggleDislike TargetTypeBlog ''r3'' 30, CallToggleLike TargetTypeBlog ''r4'' 40]))
      ''u1'' ''b1'' = Liked \<and>
   length (filter (active_for ''u1'' ''b1'') (blog_likes (run_calls (\<lambda>v l d c. 0) ''u1'' ''b1'' db0
       (take 2 [CallToggleLike TargetTypeBlog ''r1'' 10, CallToggleDislike TargetTypeBlog ''r2'' 20,
        CallToggleDislike TargetTypeBlog ''r3'' 30, CallToggleLike TargetTypeBlog ''r4'' 40])))) \<le> 1 \<and>
   call_results (\<lambda>v l d c. 0) ''u1'' ''b1'' db0
       [CallToggleLike TargetTypeBlog ''r1'' 10, CallToggleDislike TargetTypeBlog ''r2'' 20,
        CallToggleDislike TargetTypeBlog ''r3'' 30, CallToggleLike TargetTypeBlog ''r4'' 40]
     = [None, None, None, None]"
proof -
  let ?cs = "[CallToggleLike TargetTypeBlog ''r1'' 10, CallToggleDislike TargetTypeBlog ''r2'' 20,
        CallToggleDislike TargetTypeBlog ''r3'' 30, CallToggleLike TargetTypeBlog ''r4'' 40]"
  have h: "healthy db0" by (simp add: db0_def healthy_def)
  have w: "wf_likes (blog_likes db0)" by (simp add: db0_def wf_likes_def)
  have d: "distinct (map call_uuid ?cs)" by simp
  have i: "set (map call_uuid ?cs) \<inter> like_id ` set (blog_likes db0) = {}"
    by (simp add: db0_def)
  note c1 = C1_toggle_sequence [OF h w d i, of "\<lambda>v l d c. 0" "''u1''" "''b1''"]
  have r0: "reaction_of (blog_likes db0) ''u1'' ''b1'' = NoReaction"
    by (simp add: db0_def reaction_of_def)
  have f: "foldl table_step NoReaction ?cs = Liked" by simp
  have n: "replicate (length ?cs) None = [None, None, None, None :: error option]"
    by (simp add: numeral_eq_Suc)
  from c1 r0 f n show ?thesis by metis
qed

subsection \<open>C9: one reaction document per user, target and target type\<close>

lemma CreateReaction_keys:
  assumes "distinct (map like_key (blog_likes db))"
  shows "distinct (map like_key (blog_likes (snd (CreateReaction uuid db like))))"
proof -
  have k: "map like_key (update_first (reaction_filter like)
             (\<lambda>d. d\<lparr>like_type := like_type like, like_is_deleted := False\<rparr>) xs) = map like_key xs" for xs
    by (rule update_first_map_inv) (simp add: like_key_def)
  have n: "like_key \<lparr>like_id = uuid, like_user_id = like_user_id like,
                    like_target_id = like_target_id like,
                    like_target_type = like_target_type like,
                    like_type = like_type like, like_is_deleted = False\<rparr> \<notin> like_key ` set xs"
    if "\<not> list_ex (reaction_filter like) xs" for xs
    using that by (auto simp: list_ex_iff reaction_filter_def like_key_def)
  show ?thesis
    using assms
    by (auto simp: CreateReaction_def mongo_cmd_def k dest: n split: prod.splits)
qed

lemma DeleteReaction_keys:
  assumes "distinct (map like_key (blog_likes db))"
  shows "distinct (map like_key (blog_likes (snd (DeleteReaction db rid))))"
proof -
  have k: "map like_key (update_first P (\<lambda>d. d\<lparr>like_is_deleted := True\<rparr>) xs) = map like_key xs" for P xs
    by (rule update_first_map_inv) (simp add: like_key_def)
  show ?thesis
    using assms by (auto simp: DeleteReaction_def mongo_cmd_def k split: prod.splits)
qed

lemma CreateReaction_keys':
  "CreateReaction uuid db like = (res, db') \<Longrightarrow> distinct (map like_key (blog_likes db))
     \<Longrightarrow> distinct (map like_key (blog_likes db'))"
  using CreateReaction_keys [of db uuid like] by simp

lemma DeleteReaction_keys':
  "DeleteReaction db rid = (res, db') \<Longrightarrow> distinct (map like_key (blog_likes db))
     \<Longrightarrow> distinct (map like_key (blog_likes db'))"
  using DeleteReaction_keys [of db rid] by simp

lemma reaction_filter_key: "reaction_filter l d \<longleftrightarrow> like_key d = like_key l"
  by (auto simp: reaction_filter_def like_key_def)

lemma GetReaction_likes:
  "blog_likes (snd (GetReactionByUserIDAndTargetID db u t)) = blog_likes db"
  by (auto simp: GetReactionByUserIDAndTargetID_def mongo_cmd_def split: option.splits)

lemma ToggleLike_keys:
  assumes "distinct (map like_key (blog_likes db))"
  shows "distinct (map like_key (blog_likes (snd (ToggleLike score now uuid db u t tt))))"
proof -
  obtain r db1 where g: "GetReactionByUserIDAndTargetID db u t = (r, db1)" by force
  then have d1: "distinct (map like_key (blog_likes db1))"
    using assms GetReaction_likes [of db u t] by simp
  show ?thesis
    using d1 g
    by (auto simp: ToggleLike_def refresh_counts_likes split: sum.splits prod.splits
        dest: CreateReaction_keys' DeleteReaction_keys')
qed

lemma ToggleDislike_keys:
  assumes "distinct (map like_key (blog_likes db))"
  shows "distinct (map like_key (blog_likes (snd (ToggleDislike score now uuid db u t tt))))"
proof -
  obtain r db1 where g: "GetReactionByUserIDAndTargetID db u t = (r, db1)" by force
  then have d1: "distinct (map like_key (blog_likes db1))"
    using assms GetReaction_likes [of db u t] by simp
  show ?thesis
    using d1 g
    by (auto simp: ToggleDislike_def refresh_counts_likes split: sum.splits prod.splits option.splits
        dest: CreateReaction_keys' DeleteReaction_keys')
qed

lemma apply_writes_keys:
  "distinct (map like_key (blog_likes db)) \<Longrightarrow>
   distinct (map like_key (blog_likes (foldl apply_write db ws)))"
proof (induction ws arbitrary: db)
  case Nil
  then show ?case by simp
next
  case (Cons w ws)
  have "distinct (map like_key (blog_likes (apply_write db w)))"
    using Cons.prems by (cases w) (simp_all add: CreateReaction_keys DeleteReaction_keys)
  then show ?case using Cons.IH by simp
qed

lemma CreateReaction_revive:
  assumes "distinct (map like_key (blog_likes db))" and "r \<in> set (blog_likes db)"
    and "reaction_filter like r" and "\<not> mfaults db (mops db)"
  shows "fst (fst (CreateReaction uuid db like)) = None \<and>
         blog_likes (snd (CreateReaction uuid db like))
           = map (\<lambda>d. if reaction_filter like d
                       then d\<lparr>like_type := like_type like, like_is_deleted := False\<rparr> else d)
               (blog_likes db)"
proof -
  have ex: "list_ex (reaction_filter like) (blog_likes db)"
    using assms(2,3) by (auto simp: list_ex_iff)
  have "length (filter (reaction_filter like) (blog_likes db)) \<le> 1"
  proof -
    have "reaction_filter like = (\<lambda>y. like_key y = like_key like)"
      by (auto simp: reaction_filter_key)
    then show ?thesis
      using distinct_filter_le1' [OF assms(1), of "like_key like"] by simp
  qed
  then show ?thesis
    using ex assms(4)
    by (simp add: CreateReaction_def mongo_cmd_def update_first_as_map)
qed

text \<open>
  C9. Every reaction write is an upsert on user, target and target type that does not
  look at \<^verbatim>\<open>is_deleted\<close>. So, whatever the fault schedule: a collection with at most one
  document per (user, target, target type) stays so under any sequence of
  \<^verbatim>\<open>CreateReaction\<close> and \<^verbatim>\<open>DeleteReaction\<close> and under \<^verbatim>\<open>ToggleLike\<close> and
  \<^verbatim>\<open>ToggleDislike\<close>; and when a document with the key is there (active or soft-deleted)
  and the command does not fail, \<^verbatim>\<open>CreateReaction\<close> returns \<^verbatim>\<open>nil\<close> and changes that
  document in place, setting its type and \<^verbatim>\<open>is_deleted: false\<close>: no document is added.
\<close>

theorem C9_one_row_per_user_target_type:
  assumes "distinct (map like_key (blog_likes db))"
  shows "distinct (map like_key (blog_likes (foldl apply_write db ws))) \<and>
         (\<forall>k. length (filter (\<lambda>d. like_key d = k) (blog_likes (foldl apply_write db ws))) \<le> 1) \<and>
         distinct (map like_key (blog_likes (snd (ToggleLike score now uuid db u t tt)))) \<and>
         distinct (map like_key (blog_likes (snd (ToggleDislike score now uuid db u t tt)))) \<and>
         (\<forall>r. r \<in> set (blog_likes db) \<and> reaction_filter like r \<and> \<not> mfaults db (mops db) \<longrightarrow>
            fst (fst (CreateReaction uuid db like)) = None \<and>
            blog_likes (snd (CreateReaction uuid db like))
              = map (\<lambda>d. if reaction_filter like d
                          then d\<lparr>like_type := like_type like, like_is_deleted := False\<rparr> else d)
                  (blog_likes db))"
  using apply_writes_keys [OF assms, of ws] ToggleLike_keys [OF assms] ToggleDislike_keys [OF assms]
    CreateReaction_revive [OF assms] distinct_filter_le1' [of like_key "blog_likes (foldl apply_write db ws)"]
  by blast

theorem C9_one_row_per_user_target_type_witness:
  "blog_likes (snd (CreateReaction ''r2'' db_unliked
       \<lparr>like_id = '''', like_user_id = ''u1'', like_target_id = ''b1'',
        like_target_type = TargetTypeBlog, like_type = LIKE_TYPE_DISLIKE, like_is_deleted = False\<rparr>))
     = [\<lparr>like_id = ''r1'', like_user_id = ''u1'', like_target_id = ''b1'',
         like_target_type = TargetTypeBlog, like_type = LIKE_TYPE_DISLIKE, like_is_deleted = False\<rparr>] \<and>
   distinct (map like_key (blog_likes (foldl apply_write db_unliked
       [WriteCreate ''r2'' \<lparr>like_id = '''', like_user_id = ''u1'', like_target_id = ''b1'',
          like_target_type = TargetTypeBlog, like_type = LIKE_TYPE_DISLIKE, like_is_deleted = False\<rparr>,
        WriteDelete ''r1''])))"
proof -
  let ?like = "\<lparr>like_id = '''', like_user_id = ''u1'', like_target_id = ''b1'',
        like_target_type = TargetTypeBlog, like_type = LIKE_TYPE_DISLIKE, like_is_deleted = False\<rparr>"
  let ?r = "\<lparr>like_id = ''r1'', like_user_id = ''u1'', like_target_id = ''b1'',
       like_target_type = TargetTypeBlog, like_type = LIKE_TYPE_LIKE, like_is_deleted = True\<rparr>"
  have a: "distinct (map like_key (blog_likes db_unliked))"
    by (simp add: db_unliked_def db0_def)
  note c9 = C9_one_row_per_user_target_type [OF a,
      of "[WriteCreate ''r2'' ?like, WriteDelete ''r1'']" "\<lambda>v l d c. 0" 0 "''r2''" "''u1''" "''b1''"
         TargetTypeBlog ?like]
  have r: "?r \<in> set (blog_likes db_unliked) \<and> reaction_filter ?like ?r \<and>
           \<not> mfaults db_unliked (mops db_unliked)"
    by (simp add: db_unliked_def db0_def reaction_filter_def)
  from c9 r have "blog_likes (snd (CreateReaction ''r2'' db_unliked ?like))
      = map (\<lambda>d. if reaction_filter ?like d
                  then d\<lparr>like_type := like_type ?like, like_is_deleted := False\<rparr> else d)
          (blog_likes db_unliked)"
    by blast
  then have "blog_likes (snd (CreateReaction ''r2'' db_unliked ?like))
      = [\<lparr>like_id = ''r1'', like_user_id = ''u1'', like_target_id = ''b1'',
         like_target_type = TargetTypeBlog, like_type = LIKE_TYPE_DISLIKE, like_is_deleted = False\<rparr>]"
    by (simp add: db_unliked_def db0_def reaction_filter_def)
  with c9 show ?thesis by blast
qed

subsection \<open>C8: the popularity score\<close>

text \<open>
  C8. The score is a function of the four counts alone (pure and deterministic: a HOL
  function). For non-negative weights with a positive weight on likes or on dislikes,
  and non-negative views: the score does not decrease when views, likes or comments
  grow and does not increase when dislikes grow; on all-zero counts it is 0 (a finite
  value); and the score of (10 views, 3 likes, 1 dislike, 2 comments) is strictly
  greater than the score of (10 views, 1 like, 3 dislikes, 2 comments).
\<close>

theorem C8_popularity_monotone:
  assumes "0 \<le> w1" and "0 \<le> w2" and "0 \<le> w3" and "0 \<le> w4" and "0 < w2 + w3"
    and "0 \<le> v" and "v \<le> v'" and "l \<le> l'" and "d \<le> d'" and "c \<le> c'"
  shows "CalculatePopularity w1 w2 w3 w4 v l d c \<le> CalculatePopularity w1 w2 w3 w4 v' l d c \<and>
         CalculatePopularity w1 w2 w3 w4 v l d c \<le> CalculatePopularity w1 w2 w3 w4 v l' d c \<and>
         CalculatePopularity w1 w2 w3 w4 v l d' c \<le> CalculatePopularity w1 w2 w3 w4 v l d c \<and>
         CalculatePopularity w1 w2 w3 w4 v l d c \<le> CalculatePopularity w1 w2 w3 w4 v l d c' \<and>
         CalculatePopularity w1 w2 w3 w4 0 0 0 0 = 0 \<and>
         CalculatePopularity w1 w2 w3 w4 10 1 3 2 < CalculatePopularity w1 w2 w3 w4 10 3 1 2"
proof -
  have "ln (1 + real_of_int v) \<le> ln (1 + real_of_int v')"
    using assms(6,7) by simp
  then have views: "w1 * ln (1 + real_of_int v) \<le> w1 * ln (1 + real_of_int v')"
    using assms(1) by (rule mult_left_mono)
  have likes: "w2 * real_of_int l \<le> w2 * real_of_int l'"
    using assms(2,8) by (simp add: mult_left_mono)
  have dislikes: "w3 * real_of_int d \<le> w3 * real_of_int d'"
    using assms(3,9) by (simp add: mult_left_mono)
  have comments: "w4 * real_of_int c \<le> w4 * real_of_int c'"
    using assms(4,10) by (simp add: mult_left_mono)
  have gap: "CalculatePopularity w1 w2 w3 w4 10 3 1 2 - CalculatePopularity w1 w2 w3 w4 10 1 3 2
             = 2 * (w2 + w3)"
    by (simp add: CalculatePopularity_def algebra_simps)
  show ?thesis
    using views likes dislikes comments gap assms(5) by (simp add: CalculatePopularity_def)
qed

theorem C8_popularity_monotone_witness:
  "CalculatePopularity 1 3 2 2 10 1 3 2 < CalculatePopularity 1 3 2 2 10 3 1 2 \<and>
   CalculatePopularity 1 3 2 2 0 0 0 0 = 0 \<and>
   CalculatePopularity 1 3 2 2 10 3 1 2 \<le> CalculatePopularity 1 3 2 2 11 3 1 2"
  using C8_popularity_monotone [of 1 3 2 2 10 11 3 3 1 1 2 2] by simp

subsection \<open>C2: the IP velocity check on the cache\<close>

text \<open>
  C2. Eleven views from one IP address on eleven distinct blogs, the cache healthy.
  Within five minutes (29 seconds apart) the first ten are tracked and the eleventh is
  rejected with the velocity limit. Spread evenly over six minutes (36 seconds apart)
  the outcome is the same: the eleventh is rejected, where the claim has all eleven
  accepted. \<^verbatim>\<open>AddRecentViewByIP\<close> renews the time to live of the whole set at every
  view, so the set keeps the views older than five minutes as long as views keep
  coming less than five minutes apart.
\<close>

theorem C2_six_minutes_still_rejected:
  "track_views (\<lambda>v l d c. 0) db_blogs (Some cache0) ''Mozilla/5.0''
     (one_ip_events [0, 36, 72, 108, 144, 180, 216, 252, 288, 324, 360])
   = [None, None, None, None, None, None, None, None, None, None, Some ErrVelocity] \<and>
   track_views (\<lambda>v l d c. 0) db_blogs (Some cache0) ''Mozilla/5.0''
     (one_ip_events [0, 29, 58, 87, 116, 145, 174, 203, 232, 261, 290])
   = [None, None, None, None, None, None, None, None, None, None, Some ErrVelocity]"
  by code_simp

subsection \<open>C3: the fallbacks on the view records\<close>

text \<open>
  C3. The same histories with a cache whose commands all fail, so that both checks
  fall back to the view records. Eleven views from one IP address on eleven distinct
  blogs within five minutes: the fallback accepts all eleven, the cache path rejects
  the eleventh. One user on six distinct IP addresses within an hour: the fallback
  accepts the sixth, the cache path rejects it. The fallback counts the records of
  the earlier views only (the view being processed is recorded after the checks) and
  compares with the same \<^verbatim>\<open>>\<close> against the same limit.
\<close>

theorem C3_fallback_accepts_one_more:
  "track_views (\<lambda>v l d c. 0) db_blogs (Some cache_down) ''Mozilla/5.0''
     (one_ip_events [0, 29, 58, 87, 116, 145, 174, 203, 232, 261, 290])
   = [None, None, None, None, None, None, None, None, None, None, None] \<and>
   track_views (\<lambda>v l d c. 0) db_blogs (Some cache0) ''Mozilla/5.0''
     (one_ip_events [0, 29, 58, 87, 116, 145, 174, 203, 232, 261, 290])
   = [None, None, None, None, None, None, None, None, None, None, Some ErrVelocity] \<and>
   track_views (\<lambda>v l d c. 0) db_blogs (Some cache_down) ''Mozilla/5.0'' six_ip_events
   = [None, None, None, None, None, None] \<and>
   track_views (\<lambda>v l d c. 0) db_blogs (Some cache0) ''Mozilla/5.0'' six_ip_events
   = [None, None, None, None, None, Some ErrRotation]"
  by code_simp

subsection \<open>C4: the recency check\<close>

text \<open>
  C4. A view of blog b1 from an IP address whose only earlier view of that blog is 48
  hours old: \<^verbatim>\<open>TrackBlogView\<close> answers "already viewed recently", the view count stays
  0 and no record is added, where the claim has a view older than the window counted.
  \<^verbatim>\<open>HasViewedRecently\<close> filters on the blog and the viewer only.
\<close>

theorem C4_old_view_suppresses_counting:
  "(case TrackBlogView (\<lambda>v l d c. 0) (48 * 3600) db_old_view None ''b1'' '''' ''10.0.0.1''
          ''Mozilla/5.0'' of
      (res, db1, cache1) \<Rightarrow> (res, view_count_of db1 ''b1'', length (blog_views db1)))
   = (Some ErrAlreadyViewed, Some 0, 1)"
  by code_simp

subsection \<open>C10: the commit of a view is not atomic\<close>

lemma find_update_first:
  "find P xs = Some b \<Longrightarrow> P (f b) \<Longrightarrow> find P (update_first P f xs) = Some (f b)"
  by (induction xs) (auto split: if_splits)

lemma commit_view_record_fails:
  assumes "view_count_of db blogID = Some n"
    and "\<not> mfaults db (mops db)" and "mfaults db (Suc (mops db))"
  shows "fst (commit_view score now db blogID userID ipAddress userAgent) = Some ErrRecordFailed \<and>
         view_count_of (snd (commit_view score now db blogID userID ipAddress userAgent)) blogID
           = Some (n + 1) \<and>
         blog_views (snd (commit_view score now db blogID userID ipAddress userAgent)) = blog_views db"
proof -
  let ?P = "\<lambda>b. blog_id b = blogID \<and> \<not> blog_is_deleted b"
  from assms(1) obtain b where b: "find ?P (blogs db) = Some b" "blog_view_count b = n"
    by (auto simp: view_count_of_def)
  then have pb: "?P b" by (auto simp: find_Some_iff)
  have ex: "list_ex ?P (blogs db)"
    using b(1) by (auto simp: list_ex_iff find_Some_iff)
  have f: "find ?P (update_first ?P (\<lambda>b. b\<lparr>blog_view_count := blog_view_count b + 1\<rparr>) (blogs db))
           = Some (b\<lparr>blog_view_count := blog_view_count b + 1\<rparr>)"
    using pb by (intro find_update_first [OF b(1)]) simp
  show ?thesis
    using assms(2,3) ex f b(2)
    by (simp add: commit_view_def IncrementViewCount_def RecordView_def mongo_cmd_def
        view_count_of_def ErrRecordFailed_def)
qed

text \<open>
  C10. \<^verbatim>\<open>TrackBlogView\<close> increments the view count, then inserts the view record. When
  the checks before pass, the blog is there, the increment succeeds and the insert
  fails (here without a cache: the recency check is the first command, the increment
  the second, the insert the third), the call returns the error of the insert, the
  view count of the blog is one higher than before and no view record was added. The
  same holds of the commit step on any database it starts from.
\<close>

theorem C10_view_commit_not_atomic:
  assumes "blogID \<noteq> ''''" and "userID \<noteq> '''' \<or> ipAddress \<noteq> ''''" and "\<not> isBot userAgent"
    and "no_prior_view db blogID userID ipAddress"
    and "view_count_of db blogID = Some n"
    and "\<not> mfaults db (mops db)" and "\<not> mfaults db (Suc (mops db))"
    and "mfaults db (Suc (Suc (mops db)))"
  shows "(case TrackBlogView score now db None blogID userID ipAddress userAgent of
            (res, db1, cache1) \<Rightarrow>
              res = Some ErrRecordFailed \<and> view_count_of db1 blogID = Some (n + 1) \<and>
              blog_views db1 = blog_views db) \<and>
         (\<forall>db2 m. view_count_of db2 blogID = Some m \<and> \<not> mfaults db2 (mops db2) \<and>
              mfaults db2 (Suc (mops db2)) \<longrightarrow>
            fst (commit_view score now db2 blogID userID ipAddress userAgent) = Some ErrRecordFailed \<and>
            view_count_of (snd (commit_view score now db2 blogID userID ipAddress userAgent)) blogID
              = Some (m + 1) \<and>
            blog_views (snd (commit_view score now db2 blogID userID ipAddress userAgent))
              = blog_views db2)"
proof -
  let ?db1 = "db\<lparr>mops := Suc (mops db)\<rparr>"
  have hv: "HasViewedRecently db blogID userID ipAddress = (Inr False, ?db1)"
    using assms(4,6)
    by (auto simp: HasViewedRecently_def mongo_cmd_def no_prior_view_def list_ex_iff
        filter_empty_conv)
  have v1: "view_count_of ?db1 blogID = Some n"
    using assms(5) by (simp add: view_count_of_def)
  have f1: "\<not> mfaults ?db1 (mops ?db1)" "mfaults ?db1 (Suc (mops ?db1))"
    using assms(7,8) by simp_all
  note cv = commit_view_record_fails [OF v1 f1, of score now userID ipAddress userAgent]
  have "case TrackBlogView score now db None blogID userID ipAddress userAgent of
          (res, db1, cache1) \<Rightarrow>
            res = Some ErrRecordFailed \<and> view_count_of db1 blogID = Some (n + 1) \<and>
            blog_views db1 = blog_views db"
    using assms(1,2,3) hv cv
    by (auto simp: TrackBlogView_def split: prod.splits)
  then show ?thesis
    using commit_view_record_fails [where score = score and now = now and blogID = blogID
        and userID = userID and ipAddress = ipAddress and userAgent = userAgent]
    by blast
qed

theorem C10_view_commit_not_atomic_witness:
  "(case TrackBlogView (\<lambda>v l d c. 0) 100 db_record_fails None ''b1'' ''u1'' ''10.0.0.1''
          ''Mozilla/5.0'' of
      (res, db1, cache1) \<Rightarrow>
        res = Some ErrRecordFailed \<and> view_count_of db1 ''b1'' = Some (0 + 1) \<and>
        blog_views db1 = blog_views db_record_fails)"
proof -
  have a: "\<not> isBot ''Mozilla/5.0''" by code_simp
  have b: "no_prior_view db_record_fails ''b1'' ''u1'' ''10.0.0.1''"
    by (simp add: no_prior_view_def db_record_fails_def db_blogs_def db0_def)
  have c: "view_count_of db_record_fails ''b1'' = Some 0"
    by (simp add: view_count_of_def db_record_fails_def db_blogs_def db0_def eleven_blogs_def
        blog_doc_def)
  have d: "\<not> mfaults db_record_fails (mops db_record_fails)"
    "\<not> mfaults db_record_fails (Suc (mops db_record_fails))"
    "mfaults db_record_fails (Suc (Suc (mops db_record_fails)))"
    by (simp_all add: db_record_fails_def db_blogs_def db0_def)
  have e: "''b1'' \<noteq> ''''" and f: "''u1'' \<noteq> '''' \<or> ''10.0.0.1'' \<noteq> ''''"
    by simp_all
  show ?thesis
    by (rule C10_view_commit_not_atomic [OF e f a b c d, where score = "\<lambda>v l d c. 0" and now = 100,
          THEN conjunct1])
qed


end
